theory Spec2Isabelle
  imports Complex_Main
begin

section \<open>Thrown values and asynchronous calls\<close>

text \<open>
  Every \<^verbatim>\<open>await\<close> of the TypeScript sources either yields a value or throws.
  A thrown JavaScript value is modelled by what the sources observe of it: whether it
  is an \<^verbatim>\<open>Error\<close> instance (then its \<^verbatim>\<open>message\<close>), and otherwise what
  \<^verbatim>\<open>String(value)\<close> gives.
  \<^item> \<open>JsError m\<close>: an Error whose message is, or converts to, the string \<open>m\<close>;
  \<^item> \<open>JsErrorOpaque\<close>: an Error whose message cannot be converted to a string (a
    Symbol, or an object with no usable \<^verbatim>\<open>toString\<close>/\<^verbatim>\<open>valueOf\<close>), so that a template
    literal holding it throws a TypeError;
  \<^item> \<open>JsValue s\<close>: a value that is not an Error, with \<^verbatim>\<open>String(value)\<close> the string \<open>s\<close>;
  \<^item> \<open>JsOpaque\<close>: a value that is not an Error on which \<^verbatim>\<open>String\<close> itself throws a
    TypeError (for example \<^verbatim>\<open>Object.create(null)\<close>).
\<close>

datatype thrown =
    JsError string
  | JsErrorOpaque
  | JsValue string
  | JsOpaque

text \<open>
  An asynchronous function is a state transformer that returns \<open>Inl\<close> of the thrown
  value or \<open>Inr\<close> of the result, together with the state it leaves behind.
\<close>

type_synonym ('s, 'a) io = "'s \<Rightarrow> (thrown + 'a) \<times> 's"

definition returnIO :: "'a \<Rightarrow> ('s, 'a) io" where
  "returnIO a = (\<lambda>s. (Inr a, s))"

definition throwIO :: "thrown \<Rightarrow> ('s, 'a) io" where
  "throwIO e = (\<lambda>s. (Inl e, s))"

definition bindIO :: "('s, 'a) io \<Rightarrow> ('a \<Rightarrow> ('s, 'b) io) \<Rightarrow> ('s, 'b) io" where
  "bindIO m f = (\<lambda>s. case m s of (Inl e, s') \<Rightarrow> (Inl e, s') | (Inr a, s') \<Rightarrow> f a s')"

definition dq :: char where
  "dq = CHR 0x22"

definition nl :: char where
  "nl = CHR 0x0A"

section \<open>The client: connection broker and page resolution (client.ts)\<close>

subsection \<open>Playwright objects as the client observes them\<close>

text \<open>
  A CDP session answers \<^verbatim>\<open>send("Target.getTargetInfo")\<close> with the target id or
  throws, and \<^verbatim>\<open>detach()\<close> returns or throws. A page is identified by its handle;
  \<^verbatim>\<open>context.newCDPSession(page)\<close> yields a session or throws. A browser handle
  reports \<^verbatim>\<open>isConnected()\<close> and lists its contexts, a context its pages.
\<close>

record cdp_session =
  send_getTargetInfo :: "thrown + string"
  detach :: "thrown + unit"

record pw_page =
  handle :: nat
  newCDPSession :: "thrown + cdp_session"

record pw_context =
  pages :: "pw_page list"

record pw_browser =
  isConnected :: bool
  contexts :: "pw_context list"

subsection \<open>The Control API and the attach, as seen from the client\<close>

text \<open>
  The calls the client makes to the outside, in the order made. The outcome of a call
  may depend on everything that happened before it, so each outcome is a function of
  the calls made so far.
\<close>

datatype call =
    FetchInfo
  | FetchPostPages string
  | ConnectOverCDP string

text \<open>
  A response of \<^verbatim>\<open>fetch\<close>: \<^verbatim>\<open>res.ok\<close>, and what awaiting \<^verbatim>\<open>res.text()\<close> and
  \<^verbatim>\<open>res.json()\<close> (of which only \<^verbatim>\<open>targetId\<close> is read) gives. \<open>fetchInfo\<close> is the whole
  of \<^verbatim>\<open>GET serverUrl\<close>: the fetch, its \<^verbatim>\<open>json()\<close> and the \<^verbatim>\<open>wsEndpoint\<close> read from it.
\<close>

record http_response =
  ok :: bool
  body_text :: "thrown + string"
  json_targetId :: "thrown + string"

record outside =
  fetchInfo :: "call list \<Rightarrow> thrown + string"
  fetchPostPages :: "call list \<Rightarrow> string \<Rightarrow> thrown + http_response"
  connectOverCDP :: "call list \<Rightarrow> string \<Rightarrow> thrown + pw_browser"

text \<open>
  The closure variables of \<^verbatim>\<open>connect(serverUrl)\<close>: the cached browser handle and
  endpoint (both \<^verbatim>\<open>null\<close> at first), with the calls made so far.
\<close>

record conn =
  browser :: "pw_browser option"
  wsEndpoint :: "string option"
  calls :: "call list"

definition initial :: conn where
  "initial = \<lparr>browser = None, wsEndpoint = None, calls = []\<rparr>"

subsection \<open>ensureConnected\<close>

definition ensureConnected :: "outside \<Rightarrow> (conn, pw_browser) io" where
  "ensureConnected out st =
     (case (case browser st of None \<Rightarrow> None
            | Some b \<Rightarrow> if isConnected b then Some b else None) of
        Some b \<Rightarrow> (Inr b, st)
      | None \<Rightarrow>
          (let st1 = st\<lparr>calls := calls st @ [FetchInfo]\<rparr> in
           case fetchInfo out (calls st) of
             Inl e \<Rightarrow> (Inl e, st1)
           | Inr endpoint \<Rightarrow>
               (let st2 = st1\<lparr>wsEndpoint := Some endpoint,
                               calls := calls st1 @ [ConnectOverCDP endpoint]\<rparr> in
                case connectOverCDP out (calls st1) endpoint of
                  Inl e \<Rightarrow> (Inl e, st2)
                | Inr b \<Rightarrow> (Inr b, st2\<lparr>browser := Some b\<rparr>))))"

subsection \<open>findPageByTargetId\<close>

text \<open>
  The body of the \<^verbatim>\<open>try\<close> block: open a session, ask for the target info, detach.
  Any of the three may throw.
\<close>

definition getTargetId :: "pw_page \<Rightarrow> thrown + string" where
  "getTargetId p =
     (case newCDPSession p of
        Inl e \<Rightarrow> Inl e
      | Inr cdpSession \<Rightarrow>
          (case send_getTargetInfo cdpSession of
             Inl e \<Rightarrow> Inl e
           | Inr targetId \<Rightarrow>
               (case detach cdpSession of
                  Inl e \<Rightarrow> Inl e
                | Inr _ \<Rightarrow> Inr targetId)))"

text \<open>
  What \<^verbatim>\<open>Target.getTargetInfo\<close> answers for a page, when a session opens and the query
  answers: the page's target identity, whatever becomes of the session afterwards.
\<close>

definition answeredTargetId :: "pw_page \<Rightarrow> string option" where
  "answeredTargetId p =
     (case newCDPSession p of
        Inl _ \<Rightarrow> None
      | Inr cdpSession \<Rightarrow>
          (case send_getTargetInfo cdpSession of
             Inl _ \<Rightarrow> None
           | Inr targetId \<Rightarrow> Some targetId))"

text \<open>The inner loop over the pages of one context; a throw is caught and the page skipped.\<close>

fun scanPages :: "pw_page list \<Rightarrow> string \<Rightarrow> pw_page option" where
  "scanPages [] targetId = None"
| "scanPages (p # ps) targetId =
     (case getTargetId p of
        Inr t \<Rightarrow> if t = targetId then Some p else scanPages ps targetId
      | Inl _ \<Rightarrow> scanPages ps targetId)"

text \<open>The outer loop over the contexts.\<close>

fun scanContexts :: "pw_context list \<Rightarrow> string \<Rightarrow> pw_page option" where
  "scanContexts [] targetId = None"
| "scanContexts (c # cs) targetId =
     (case scanPages (pages c) targetId of
        Some p \<Rightarrow> Some p
      | None \<Rightarrow> scanContexts cs targetId)"

definition findPageByTargetId :: "pw_browser \<Rightarrow> string \<Rightarrow> pw_page option" where
  "findPageByTargetId b targetId = scanContexts (contexts b) targetId"

subsection \<open>page\<close>

text \<open>
  The last step of \<^verbatim>\<open>page(name)\<close>: find the page by its target id and throw when
  there is none.
\<close>

definition resolve :: "string \<Rightarrow> pw_browser \<Rightarrow> string \<Rightarrow> thrown + pw_page" where
  "resolve name b targetId =
     (case findPageByTargetId b targetId of
        None \<Rightarrow> Inl (JsError (''Page '' @ [dq] @ name @ [dq] @ '' not found in browser contexts''))
      | Some p \<Rightarrow> Inr p)"

definition page :: "outside \<Rightarrow> string \<Rightarrow> (conn, pw_page) io" where
  "page out name st =
     (let st1 = st\<lparr>calls := calls st @ [FetchPostPages name]\<rparr> in
      case fetchPostPages out (calls st) name of
        Inl e \<Rightarrow> (Inl e, st1)
      | Inr res \<Rightarrow>
          if \<not> ok res then
            (case body_text res of
               Inl e \<Rightarrow> (Inl e, st1)
             | Inr t \<Rightarrow> (Inl (JsError (''Failed to get page: '' @ t)), st1))
          else
            (case json_targetId res of
               Inl e \<Rightarrow> (Inl e, st1)
             | Inr targetId \<Rightarrow>
                 (case ensureConnected out st1 of
                    (Inl e, st2) \<Rightarrow> (Inl e, st2)
                  | (Inr b, st2) \<Rightarrow> (resolve name b targetId, st2))))"

section \<open>The tool-call boundary (tools.ts)\<close>

subsection \<open>Arguments and results\<close>

text \<open>
  The argument object of a tool call, with the properties and types the tools'
  input schemas declare. A property that is missing (or \<^verbatim>\<open>null\<close>) is \<open>None\<close>; the
  whole object may be missing too. A number is a real: every finite JavaScript number
  is one.
\<close>

record tool_args =
  arg_page :: "string option"
  arg_url :: "string option"
  arg_ref :: "string option"
  arg_text :: "string option"
  arg_clear :: "bool option"
  arg_fullPage :: "bool option"
  arg_direction :: "string option"
  arg_amount :: "real option"
  arg_script :: "string option"

definition no_args :: tool_args where
  "no_args = \<lparr>arg_page = None, arg_url = None, arg_ref = None, arg_text = None,
     arg_clear = None, arg_fullPage = None, arg_direction = None, arg_amount = None,
     arg_script = None\<rparr>"

text \<open>The optional chaining \<^verbatim>\<open>args?.x\<close>.\<close>

definition argOf :: "tool_args option \<Rightarrow> (tool_args \<Rightarrow> 'a option) \<Rightarrow> 'a option" where
  "argOf args f = (case args of None \<Rightarrow> None | Some a \<Rightarrow> f a)"

text \<open>One element of the returned \<^verbatim>\<open>content\<close> array.\<close>

record content =
  c_type :: string
  c_text :: "string option"
  c_data :: "string option"
  c_mimeType :: "string option"

definition textContent :: "string \<Rightarrow> content" where
  "textContent s = \<lparr>c_type = ''text'', c_text = Some s, c_data = None, c_mimeType = None\<rparr>"

text \<open>
  What a script handed to \<^verbatim>\<open>browser_run_script\<close> returns: \<^verbatim>\<open>undefined\<close>, or a
  value, of which the tool uses \<^verbatim>\<open>JSON.stringify(result, null, 2)\<close> only (a string,
  \<^verbatim>\<open>undefined\<close>, or a throw).
\<close>

datatype script_result =
    Undefined
  | Defined "thrown + string option"

subsection \<open>The client and the Playwright objects it hands out\<close>

text \<open>
  The calls a tool makes on the client, on a page and on an element, in the order
  made. Pages and elements are handles.
\<close>

datatype action =
    GetAISnapshot string
  | ClientPage string
  | SelectSnapshotRef string string
  | ClientList
  | ClientClose string
  | Goto nat string
  | WaitForPageLoad nat "nat option"
  | Click nat
  | Fill nat string
  | TypeText nat string
  | Screenshot nat "bool option"
  | MouseWheel nat real real
  | RunScript nat string

text \<open>
  The \<^verbatim>\<open>client\<close> parameter of \<^verbatim>\<open>handleToolCall\<close>. Its implementation is not part of
  the sources, so every method is a parameter: the outcome of a call is any
  function of the calls made so far and of its arguments. The record also carries the
  one piece of the JavaScript runtime the tools rely on beyond strings: how a number
  is printed inside a template literal (\<open>numberToString\<close>), taken as given.
\<close>

record client =
  on_getAISnapshot :: "action list \<Rightarrow> string \<Rightarrow> thrown + string"
  on_page :: "action list \<Rightarrow> string \<Rightarrow> thrown + nat"
  on_selectSnapshotRef :: "action list \<Rightarrow> string \<Rightarrow> string \<Rightarrow> thrown + nat option"
  on_list :: "action list \<Rightarrow> thrown + string list"
  on_close :: "action list \<Rightarrow> string \<Rightarrow> thrown + unit"
  on_goto :: "action list \<Rightarrow> nat \<Rightarrow> string \<Rightarrow> thrown + unit"
  on_waitForPageLoad :: "action list \<Rightarrow> nat \<Rightarrow> nat option \<Rightarrow> thrown + unit"
  on_click :: "action list \<Rightarrow> nat \<Rightarrow> thrown + unit"
  on_fill :: "action list \<Rightarrow> nat \<Rightarrow> string \<Rightarrow> thrown + unit"
  on_type :: "action list \<Rightarrow> nat \<Rightarrow> string \<Rightarrow> thrown + unit"
  on_screenshot :: "action list \<Rightarrow> nat \<Rightarrow> bool option \<Rightarrow> thrown + string"
  on_wheel :: "action list \<Rightarrow> nat \<Rightarrow> real \<Rightarrow> real \<Rightarrow> thrown + unit"
  on_script :: "action list \<Rightarrow> nat \<Rightarrow> string \<Rightarrow> thrown + script_result"
  numberToString :: "real \<Rightarrow> string"

text \<open>One awaited call: its outcome, and the call appended to the trace.\<close>

definition perform :: "action \<Rightarrow> (action list \<Rightarrow> thrown + 'a) \<Rightarrow> (action list, 'a) io" where
  "perform a outcome = (\<lambda>tr. (outcome tr, tr @ [a]))"

definition client_getAISnapshot :: "client \<Rightarrow> string \<Rightarrow> (action list, string) io" where
  "client_getAISnapshot cl pageName =
     perform (GetAISnapshot pageName) (\<lambda>tr. on_getAISnapshot cl tr pageName)"

definition client_page :: "client \<Rightarrow> string \<Rightarrow> (action list, nat) io" where
  "client_page cl pageName = perform (ClientPage pageName) (\<lambda>tr. on_page cl tr pageName)"

definition client_selectSnapshotRef ::
    "client \<Rightarrow> string \<Rightarrow> string \<Rightarrow> (action list, nat option) io" where
  "client_selectSnapshotRef cl pageName ref =
     perform (SelectSnapshotRef pageName ref) (\<lambda>tr. on_selectSnapshotRef cl tr pageName ref)"

definition client_list :: "client \<Rightarrow> (action list, string list) io" where
  "client_list cl = perform ClientList (on_list cl)"

definition client_close :: "client \<Rightarrow> string \<Rightarrow> (action list, unit) io" where
  "client_close cl name = perform (ClientClose name) (\<lambda>tr. on_close cl tr name)"

definition page_goto :: "client \<Rightarrow> nat \<Rightarrow> string \<Rightarrow> (action list, unit) io" where
  "page_goto cl p url = perform (Goto p url) (\<lambda>tr. on_goto cl tr p url)"

definition waitForPageLoad :: "client \<Rightarrow> nat \<Rightarrow> nat option \<Rightarrow> (action list, unit) io" where
  "waitForPageLoad cl p timeout =
     perform (WaitForPageLoad p timeout) (\<lambda>tr. on_waitForPageLoad cl tr p timeout)"

definition element_click :: "client \<Rightarrow> nat \<Rightarrow> (action list, unit) io" where
  "element_click cl e = perform (Click e) (\<lambda>tr. on_click cl tr e)"

definition element_fill :: "client \<Rightarrow> nat \<Rightarrow> string \<Rightarrow> (action list, unit) io" where
  "element_fill cl e t = perform (Fill e t) (\<lambda>tr. on_fill cl tr e t)"

definition element_type :: "client \<Rightarrow> nat \<Rightarrow> string \<Rightarrow> (action list, unit) io" where
  "element_type cl e t = perform (TypeText e t) (\<lambda>tr. on_type cl tr e t)"

text \<open>\<^verbatim>\<open>page.screenshot({ fullPage })\<close>, the buffer already as base64.\<close>

definition page_screenshot :: "client \<Rightarrow> nat \<Rightarrow> bool option \<Rightarrow> (action list, string) io" where
  "page_screenshot cl p fullPage =
     perform (Screenshot p fullPage) (\<lambda>tr. on_screenshot cl tr p fullPage)"

definition page_mouse_wheel :: "client \<Rightarrow> nat \<Rightarrow> real \<Rightarrow> real \<Rightarrow> (action list, unit) io" where
  "page_mouse_wheel cl p dx dy = perform (MouseWheel p dx dy) (\<lambda>tr. on_wheel cl tr p dx dy)"

text \<open>Building the \<^verbatim>\<open>AsyncFunction\<close> from the script and awaiting \<^verbatim>\<open>fn(page)\<close>.\<close>

definition run_script :: "client \<Rightarrow> nat \<Rightarrow> string \<Rightarrow> (action list, script_result) io" where
  "run_script cl p script = perform (RunScript p script) (\<lambda>tr. on_script cl tr p script)"

subsection \<open>Strings\<close>

text \<open>\<^verbatim>\<open>Array.prototype.join\<close> on strings.\<close>

fun joinWith :: "string \<Rightarrow> string list \<Rightarrow> string" where
  "joinWith sep [] = []"
| "joinWith sep [x] = x"
| "joinWith sep (x # y # ys) = x @ sep @ joinWith sep (y # ys)"

subsection \<open>The tools\<close>

text \<open>\<^verbatim>\<open>if (!v) throw new Error(msg)\<close> on a string argument: missing and empty both throw.\<close>

definition required ::
    "string option \<Rightarrow> string \<Rightarrow> (string \<Rightarrow> ('s, 'a) io) \<Rightarrow> ('s, 'a) io" where
  "required v msg k =
     (case v of
        None \<Rightarrow> throwIO (JsError msg)
      | Some s \<Rightarrow> if s = [] then throwIO (JsError msg) else k s)"

text \<open>\<^verbatim>\<open>(args?.page as string) || "default"\<close>.\<close>

definition pageNameOf :: "tool_args option \<Rightarrow> string" where
  "pageNameOf args =
     (case argOf args arg_page of
        None \<Rightarrow> ''default''
      | Some p \<Rightarrow> if p = [] then ''default'' else p)"

definition browser_snapshot :: "client \<Rightarrow> string \<Rightarrow> (action list, content list) io" where
  "browser_snapshot cl pageName =
     bindIO (client_getAISnapshot cl pageName) (\<lambda>snapshot.
     returnIO [textContent snapshot])"

definition browser_navigate ::
    "client \<Rightarrow> string \<Rightarrow> tool_args option \<Rightarrow> (action list, content list) io" where
  "browser_navigate cl pageName args =
     required (argOf args arg_url) ''url is required'' (\<lambda>url.
     bindIO (client_page cl pageName) (\<lambda>p.
     bindIO (page_goto cl p url) (\<lambda>_.
     bindIO (waitForPageLoad cl p None) (\<lambda>_.
     bindIO (client_getAISnapshot cl pageName) (\<lambda>snapshot.
     returnIO [textContent (''Navigated to '' @ url @ [nl, nl] @ snapshot)])))))"

definition browser_click ::
    "client \<Rightarrow> string \<Rightarrow> tool_args option \<Rightarrow> (action list, content list) io" where
  "browser_click cl pageName args =
     required (argOf args arg_ref) ''ref is required'' (\<lambda>ref.
     bindIO (client_selectSnapshotRef cl pageName ref) (\<lambda>element.
     case element of
       None \<Rightarrow> throwIO (JsError (''Element with ref '' @ [dq] @ ref @ [dq] @ '' not found''))
     | Some el \<Rightarrow>
         bindIO (element_click cl el) (\<lambda>_.
         bindIO (client_page cl pageName) (\<lambda>p.
         bindIO (waitForPageLoad cl p None) (\<lambda>_.
         bindIO (client_getAISnapshot cl pageName) (\<lambda>snapshot.
         returnIO [textContent (''Clicked element [ref='' @ ref @ '']'' @ [nl, nl] @ snapshot)]))))))"

definition browser_type ::
    "client \<Rightarrow> string \<Rightarrow> tool_args option \<Rightarrow> (action list, content list) io" where
  "browser_type cl pageName args =
     required (argOf args arg_ref) ''ref is required'' (\<lambda>ref.
     required (argOf args arg_text) ''text is required'' (\<lambda>txt.
     bindIO (client_selectSnapshotRef cl pageName ref) (\<lambda>element.
     case element of
       None \<Rightarrow> throwIO (JsError (''Element with ref '' @ [dq] @ ref @ [dq] @ '' not found''))
     | Some el \<Rightarrow>
         bindIO (if argOf args arg_clear = Some True then element_fill cl el txt
                 else element_type cl el txt) (\<lambda>_.
         bindIO (client_getAISnapshot cl pageName) (\<lambda>snapshot.
         returnIO [textContent
           (''Typed '' @ [dq] @ txt @ [dq] @ '' into [ref='' @ ref @ '']'' @ [nl, nl] @ snapshot)])))))"

definition browser_screenshot ::
    "client \<Rightarrow> string \<Rightarrow> tool_args option \<Rightarrow> (action list, content list) io" where
  "browser_screenshot cl pageName args =
     bindIO (client_page cl pageName) (\<lambda>p.
     bindIO (page_screenshot cl p (argOf args arg_fullPage)) (\<lambda>base64.
     returnIO [\<lparr>c_type = ''image'', c_text = None, c_data = Some base64,
                c_mimeType = Some ''image/png''\<rparr>]))"

text \<open>\<^verbatim>\<open>(args?.amount as number) || 500\<close>.\<close>

definition scrollAmount :: "tool_args option \<Rightarrow> real" where
  "scrollAmount args =
     (case argOf args arg_amount of
        None \<Rightarrow> 500
      | Some a \<Rightarrow> if a = 0 then 500 else a)"

text \<open>\<^verbatim>\<open>direction === "down" ? amount : -amount\<close>.\<close>

definition scrollDelta :: "string \<Rightarrow> real \<Rightarrow> real" where
  "scrollDelta direction amount = (if direction = ''down'' then amount else - amount)"

definition browser_scroll ::
    "client \<Rightarrow> string \<Rightarrow> tool_args option \<Rightarrow> (action list, content list) io" where
  "browser_scroll cl pageName args =
     (let amount = scrollAmount args in
      required (argOf args arg_direction) ''direction is required'' (\<lambda>direction.
      bindIO (client_page cl pageName) (\<lambda>p.
      bindIO (page_mouse_wheel cl p 0 (scrollDelta direction amount)) (\<lambda>_.
      bindIO (waitForPageLoad cl p (Some 2000)) (\<lambda>_.
      bindIO (client_getAISnapshot cl pageName) (\<lambda>snapshot.
      returnIO [textContent
        (''Scrolled '' @ direction @ '' '' @ numberToString cl amount @ ''px'' @ [nl, nl]
         @ snapshot)]))))))"

definition browser_run_script ::
    "client \<Rightarrow> string \<Rightarrow> tool_args option \<Rightarrow> (action list, content list) io" where
  "browser_run_script cl pageName args =
     required (argOf args arg_script) ''script is required'' (\<lambda>script.
     bindIO (client_page cl pageName) (\<lambda>p.
     bindIO (run_script cl p script) (\<lambda>result.
     case result of
       Undefined \<Rightarrow> returnIO [textContent ''Script executed successfully'']
     | Defined stringified \<Rightarrow>
         (case stringified of
            Inl e \<Rightarrow> throwIO e
          | Inr t \<Rightarrow> returnIO [\<lparr>c_type = ''text'', c_text = t, c_data = None,
                                 c_mimeType = None\<rparr>]))))"

definition browser_list_pages :: "client \<Rightarrow> (action list, content list) io" where
  "browser_list_pages cl =
     bindIO (client_list cl) (\<lambda>pages.
     returnIO [textContent
       (if length pages > 0
        then ''Open pages:'' @ [nl] @ joinWith [nl] (map (\<lambda>p. ''- '' @ p) pages)
        else ''No pages open'')])"

definition browser_close_page ::
    "client \<Rightarrow> tool_args option \<Rightarrow> (action list, content list) io" where
  "browser_close_page cl args =
     required (argOf args arg_page) ''page is required'' (\<lambda>pageToClose.
     bindIO (client_close cl pageToClose) (\<lambda>_.
     returnIO [textContent (''Closed page '' @ [dq] @ pageToClose @ [dq])]))"

subsection \<open>handleToolCall\<close>

text \<open>The \<^verbatim>\<open>switch\<close> inside the \<^verbatim>\<open>try\<close>.\<close>

definition runTool ::
    "client \<Rightarrow> string \<Rightarrow> tool_args option \<Rightarrow> (action list, content list) io" where
  "runTool cl name args =
     (let pageName = pageNameOf args in
      if name = ''browser_snapshot'' then browser_snapshot cl pageName
      else if name = ''browser_navigate'' then browser_navigate cl pageName args
      else if name = ''browser_click'' then browser_click cl pageName args
      else if name = ''browser_type'' then browser_type cl pageName args
      else if name = ''browser_screenshot'' then browser_screenshot cl pageName args
      else if name = ''browser_scroll'' then browser_scroll cl pageName args
      else if name = ''browser_run_script'' then browser_run_script cl pageName args
      else if name = ''browser_list_pages'' then browser_list_pages cl
      else if name = ''browser_close_page'' then browser_close_page cl args
      else throwIO (JsError (''Unknown tool: '' @ name)))"

text \<open>
  The \<^verbatim>\<open>catch\<close> block, which stands outside any \<^verbatim>\<open>try\<close>. The value of
  \<^verbatim>\<open>error instanceof Error ? error.message : String(error)\<close> is a string, or a message
  that no conversion turns into one; \<^verbatim>\<open>String(error)\<close> may throw.
\<close>

datatype js_message =
    Message string
  | Unprintable

definition messageOf :: "thrown \<Rightarrow> thrown + js_message" where
  "messageOf e =
     (case e of
        JsError m \<Rightarrow> Inr (Message m)
      | JsErrorOpaque \<Rightarrow> Inr Unprintable
      | JsValue s \<Rightarrow> Inr (Message s)
      | JsOpaque \<Rightarrow> Inl (JsError ''Cannot convert object to primitive value''))"

text \<open>The template literal \<^verbatim>\<open>`Error: ${message}`\<close>, which converts the message.\<close>

definition errorText :: "js_message \<Rightarrow> thrown + string" where
  "errorText message =
     (case message of
        Message m \<Rightarrow> Inr (''Error: '' @ m)
      | Unprintable \<Rightarrow> Inl (JsError ''Cannot convert object to primitive value''))"

definition handleToolCall ::
    "client \<Rightarrow> string \<Rightarrow> tool_args option \<Rightarrow> (action list, content list) io" where
  "handleToolCall cl name args tr =
     (case runTool cl name args tr of
        (Inr result, tr') \<Rightarrow> (Inr result, tr')
      | (Inl error, tr') \<Rightarrow>
          (case messageOf error of
             Inl e \<Rightarrow> (Inl e, tr')
           | Inr message \<Rightarrow>
               (case errorText message of
                  Inl e \<Rightarrow> (Inl e, tr')
                | Inr t \<Rightarrow> (Inr [textContent t], tr'))))"

text \<open>
  Which page a call on the client names; calls on a page or element handle name none.
\<close>

fun pageOf :: "action \<Rightarrow> string option" where
  "pageOf (GetAISnapshot n) = Some n"
| "pageOf (ClientPage n) = Some n"
| "pageOf (SelectSnapshotRef n r) = Some n"
| "pageOf (ClientClose n) = Some n"
| "pageOf a = None"

text \<open>Every call of a trace that names a page names \<open>pn\<close>.\<close>

definition onlyPage :: "string \<Rightarrow> action list \<Rightarrow> bool" where
  "onlyPage pn new = list_all (\<lambda>a. pageOf a = None \<or> pageOf a = Some pn) new"

text \<open>The tools that work on the page \<^verbatim>\<open>pageName\<close>.\<close>

definition pageTools :: "string list" where
  "pageTools = [''browser_snapshot'', ''browser_navigate'', ''browser_click'', ''browser_type'',
     ''browser_screenshot'', ''browser_scroll'', ''browser_run_script'']"

section \<open>The server side, from the specification\<close>

subsection \<open>Page Registry\<close>

text \<open>
  Modelled from the spec: the Page Registry behind \<^verbatim>\<open>POST /pages\<close> (the server module
  is not among the sources; the client only relays its answer). An entry maps a page
  name to its target id; entries are kept in creation order; a target id is never
  reused; creating an entry opens one page in the browser.
\<close>

record registry =
  entries :: "(string \<times> nat) list"
  nextTargetId :: nat
  openPages :: "nat list"

text \<open>
  Modelled from the spec: \<^verbatim>\<open>getOrCreate(name)\<close> returns the target id of the entry
  of that name, creating the entry (and opening its page) when there is none.
\<close>

definition getOrCreate :: "string \<Rightarrow> registry \<Rightarrow> nat \<times> registry" where
  "getOrCreate name reg =
     (case map_of (entries reg) name of
        Some targetId \<Rightarrow> (targetId, reg)
      | None \<Rightarrow>
          (let targetId = nextTargetId reg in
           (targetId,
            reg\<lparr>entries := entries reg @ [(name, targetId)],
                nextTargetId := Suc targetId,
                openPages := openPages reg @ [targetId]\<rparr>)))"

subsection \<open>Reference Resolver\<close>

text \<open>
  Modelled from the spec: a page's current snapshot (the snapshot engine and
  \<^verbatim>\<open>selectSnapshotRef\<close> are not among the sources). The \<open>refMap\<close> maps a ref id to the
  locator of its element.
\<close>

record snapshot =
  sequenceNumber :: nat
  refMap :: "string \<rightharpoonup> nat"

datatype resolve_error =
    StaleRefError
  | ElementDetachedError

text \<open>
  Modelled from the spec: \<^verbatim>\<open>resolveElement(pageName, ref)\<close> looks \<open>ref\<close> up in the
  current snapshot's \<open>refMap\<close> for that page and fails with \<open>StaleRefError\<close> if it is
  absent; if present it re-locates the node in the live document (\<open>locate\<close>) and fails
  with \<open>ElementDetachedError\<close> if the node is gone.
\<close>

definition resolveElement ::
    "(string \<Rightarrow> snapshot) \<Rightarrow> (nat \<rightharpoonup> nat) \<Rightarrow> string \<Rightarrow> string \<Rightarrow> resolve_error + nat" where
  "resolveElement current locate pageName ref =
     (case refMap (current pageName) ref of
        None \<Rightarrow> Inl StaleRefError
      | Some locator \<Rightarrow>
          (case locate locator of
             None \<Rightarrow> Inl ElementDetachedError
           | Some element \<Rightarrow> Inr element))"

text \<open>
  Modelled from the spec: issuing a new snapshot for a page supersedes (does not merge
  with) the page's previous one.
\<close>

definition supersede ::
    "(string \<Rightarrow> snapshot) \<Rightarrow> string \<Rightarrow> (string \<rightharpoonup> nat) \<Rightarrow> (string \<Rightarrow> snapshot)" where
  "supersede current pageName m =
     current(pageName := \<lparr>sequenceNumber = Suc (sequenceNumber (current pageName)), refMap = m\<rparr>)"

subsection \<open>Snapshot Engine\<close>

text \<open>
  Modelled from the spec: the Snapshot Engine behind \<^verbatim>\<open>getAISnapshot\<close> (its
  implementation is not among the sources). A snapshot of a page yields the display
  form and the \<open>refMap\<close>, or fails; like every call its outcome may depend on the
  calls made before it.
\<close>

type_synonym engine = "action list \<Rightarrow> string \<Rightarrow> thrown + string \<times> (string \<rightharpoonup> nat)"

text \<open>
  Modelled from the spec: a client whose \<^verbatim>\<open>getAISnapshot\<close> is the Snapshot Engine,
  returning the display form of the snapshot it takes.
\<close>

definition withEngine :: "client \<Rightarrow> engine \<Rightarrow> client" where
  "withEngine cl eng =
     cl\<lparr>on_getAISnapshot :=
          (\<lambda>tr pageName. case eng tr pageName of
                            Inl e \<Rightarrow> Inl e
                          | Inr (display, m) \<Rightarrow> Inr display)\<rparr>"

text \<open>
  Modelled from the spec: a snapshot is created on every \<^verbatim>\<open>getAISnapshot\<close> call and
  supersedes the page's current one; no other call touches the snapshots. \<open>before\<close>
  holds the calls made before the one at hand.
\<close>

fun snapshotStep ::
    "engine \<Rightarrow> action list \<Rightarrow> action \<Rightarrow> (string \<Rightarrow> snapshot) \<Rightarrow> (string \<Rightarrow> snapshot)" where
  "snapshotStep eng before (GetAISnapshot pageName) current =
     (case eng before pageName of
        Inl _ \<Rightarrow> current
      | Inr (display, m) \<Rightarrow> supersede current pageName m)"
| "snapshotStep eng before a current = current"

text \<open>Modelled from the spec: the current snapshots after a run of calls.\<close>

fun currentAfter ::
    "engine \<Rightarrow> action list \<Rightarrow> action list \<Rightarrow> (string \<Rightarrow> snapshot) \<Rightarrow> (string \<Rightarrow> snapshot)" where
  "currentAfter eng before [] current = current"
| "currentAfter eng before (a # rest) current =
     currentAfter eng (before @ [a]) rest (snapshotStep eng before a current)"

section \<open>Concrete inputs\<close>

definition page_closed :: pw_page where
  "page_closed = \<lparr>handle = 1, newCDPSession = Inl (JsError ''Target closed'')\<rparr>"

definition page_a :: pw_page where
  "page_a = \<lparr>handle = 2,
     newCDPSession = Inr \<lparr>send_getTargetInfo = Inr ''T2'', detach = Inr ()\<rparr>\<rparr>"

definition page_b :: pw_page where
  "page_b = \<lparr>handle = 3,
     newCDPSession = Inr \<lparr>send_getTargetInfo = Inr ''T3'', detach = Inr ()\<rparr>\<rparr>"

definition page_a2 :: pw_page where
  "page_a2 = \<lparr>handle = 4,
     newCDPSession = Inr \<lparr>send_getTargetInfo = Inr ''T2'', detach = Inr ()\<rparr>\<rparr>"

text \<open>A page that answers with its target id and whose session then fails to detach.\<close>

definition page_c :: pw_page where
  "page_c = \<lparr>handle = 5,
     newCDPSession = Inr \<lparr>send_getTargetInfo = Inr ''T2'',
                            detach = Inl (JsError ''Session closed'')\<rparr>\<rparr>"

definition example_browser :: pw_browser where
  "example_browser = \<lparr>isConnected = True,
     contexts = [\<lparr>pages = [page_closed, page_a]\<rparr>, \<lparr>pages = [page_b, page_a2]\<rparr>]\<rparr>"

text \<open>An attach that fails the first time it is tried and succeeds from then on.\<close>

definition flaky :: outside where
  "flaky = \<lparr>
     fetchInfo = (\<lambda>tr. Inr ''ws://127.0.0.1:9223''),
     fetchPostPages = (\<lambda>tr name. Inr \<lparr>ok = True, body_text = Inr [], json_targetId = Inr ''T2''\<rparr>),
     connectOverCDP = (\<lambda>tr endpoint.
        if ConnectOverCDP endpoint \<in> set tr then Inr example_browser
        else Inl (JsError ''ConnectionLostError''))\<rparr>"

definition steady :: outside where
  "steady = \<lparr>
     fetchInfo = (\<lambda>tr. Inr ''ws://127.0.0.1:9223''),
     fetchPostPages = (\<lambda>tr name. Inr \<lparr>ok = True, body_text = Inr [], json_targetId = Inr ''T2''\<rparr>),
     connectOverCDP = (\<lambda>tr endpoint. Inr example_browser)\<rparr>"

text \<open>
  A client on which every call succeeds; the one script it knows throws an object
  without a prototype. Its \<open>numberToString\<close> is right at 500, 120 and 0, the only
  numbers printed below.
\<close>

definition example_client :: client where
  "example_client = \<lparr>
     on_getAISnapshot = (\<lambda>tr pageName. Inr ''- button [ref=e1]''),
     on_page = (\<lambda>tr pageName. Inr 7),
     on_selectSnapshotRef = (\<lambda>tr pageName ref. if ref = ''e1'' then Inr (Some 3) else Inr None),
     on_list = (\<lambda>tr. Inr [''default'']),
     on_close = (\<lambda>tr name. Inr ()),
     on_goto = (\<lambda>tr p url. Inr ()),
     on_waitForPageLoad = (\<lambda>tr p timeout. Inr ()),
     on_click = (\<lambda>tr e. Inr ()),
     on_fill = (\<lambda>tr e t. Inr ()),
     on_type = (\<lambda>tr e t. Inr ()),
     on_screenshot = (\<lambda>tr p fullPage. Inr ''iVBORw0KGgo=''),
     on_wheel = (\<lambda>tr p dx dy. Inr ()),
     on_script = (\<lambda>tr p script.
        if script = ''throw Object.create(null)'' then Inl JsOpaque else Inr Undefined),
     numberToString = (\<lambda>x. if x = 500 then ''500'' else if x = 120 then ''120'' else ''0'')\<rparr>"

definition example_current :: "string \<Rightarrow> snapshot" where
  "example_current = (\<lambda>pageName. \<lparr>sequenceNumber = 1, refMap = [''e1'' \<mapsto> 10, ''e2'' \<mapsto> 11]\<rparr>)"

definition example_engine :: engine where
  "example_engine = (\<lambda>tr pageName. Inr (''- button [ref=e1]'', [''e1'' \<mapsto> 10]))"

definition example_registry :: registry where
  "example_registry = \<lparr>entries = [(''main'', 0)], nextTargetId = 1, openPages = [0]\<rparr>"

section \<open>Properties of the client\<close>

lemma scanPages_find:
  "scanPages ps targetId = List.find (\<lambda>p. getTargetId p = Inr targetId) ps"
  by (induction ps) (auto split: sum.splits)

lemma find_append_first:
  "List.find P (xs @ ys) = (case List.find P xs of Some x \<Rightarrow> Some x | None \<Rightarrow> List.find P ys)"
  by (induction xs) auto

lemma scanContexts_find:
  "scanContexts cs targetId =
     List.find (\<lambda>p. getTargetId p = Inr targetId) (concat (map pages cs))"
  by (induction cs) (auto simp: scanPages_find find_append_first split: option.splits)

lemma getTargetId_examples:
  "getTargetId page_closed = Inl (JsError ''Target closed'')"
  "getTargetId page_a = Inr ''T2''"
  "getTargetId page_b = Inr ''T3''"
  "getTargetId page_a2 = Inr ''T2''"
  by (simp_all add: getTargetId_def page_closed_def page_a_def page_b_def page_a2_def)

lemma getTargetId_answered:
  "getTargetId p = Inr t \<Longrightarrow> answeredTargetId p = Some t"
  by (auto simp: getTargetId_def answeredTargetId_def split: sum.splits)

text \<open>
  C2, as the specification states it: resolving a target id returns the first page
  whose target identity equals the requested id, and fails with PageResolutionError
  when no page matches. The code asks for the identity, detaches the session, and only
  then compares, all inside one \<^verbatim>\<open>try\<close>: a page that answers with the requested id but
  whose session fails to detach is passed over, so a later page is returned in its
  place, or none at all. The failure is a plain Error; the code has no error kinds.
\<close>

theorem resolve_detach_counterexample:
  "answeredTargetId page_c = Some ''T2''
   \<and> findPageByTargetId \<lparr>isConnected = True, contexts = [\<lparr>pages = [page_c, page_a2]\<rparr>]\<rparr> ''T2''
     = Some page_a2
   \<and> resolve ''main'' \<lparr>isConnected = True, contexts = [\<lparr>pages = [page_c]\<rparr>]\<rparr> ''T2''
     = Inl (JsError (''Page '' @ [dq] @ ''main'' @ [dq] @ '' not found in browser contexts''))"
  by (simp add: answeredTargetId_def resolve_def findPageByTargetId_def getTargetId_def
      page_c_def page_a2_def)

text \<open>
  C2, amended. Resolving a target id scans the contexts of the browser in order and,
  within each, its pages in order, and returns the first page whose identity query
  completes with the requested id: the session opens, \<^verbatim>\<open>Target.getTargetInfo\<close> answers
  that id, and the session detaches. A page whose query throws at any of these steps
  is passed over. The page returned does have the requested identity. When no page
  completes the query with the requested id, \<^verbatim>\<open>page\<close> throws a plain Error with the
  message \<^verbatim>\<open>Page "<name>" not found in browser contexts\<close>.
\<close>

theorem resolve_first_match:
  "findPageByTargetId b targetId
     = List.find (\<lambda>p. getTargetId p = Inr targetId) (concat (map pages (contexts b)))
   \<and> resolve name b targetId =
     (case List.find (\<lambda>p. getTargetId p = Inr targetId) (concat (map pages (contexts b))) of
        Some p \<Rightarrow> Inr p
      | None \<Rightarrow> Inl (JsError (''Page '' @ [dq] @ name @ [dq] @ '' not found in browser contexts'')))
   \<and> (findPageByTargetId b targetId = Some p \<longrightarrow> answeredTargetId p = Some targetId)
   \<and> (getTargetId p = Inr targetId
        \<longleftrightarrow> answeredTargetId p = Some targetId
            \<and> (\<exists>s. newCDPSession p = Inr s \<and> detach s = Inr ()))"
proof -
  have f: "findPageByTargetId b targetId
     = List.find (\<lambda>p. getTargetId p = Inr targetId) (concat (map pages (contexts b)))"
    by (simp add: findPageByTargetId_def scanContexts_find)
  have r: "resolve name b targetId =
     (case List.find (\<lambda>p. getTargetId p = Inr targetId) (concat (map pages (contexts b))) of
        Some p \<Rightarrow> Inr p
      | None \<Rightarrow> Inl (JsError (''Page '' @ [dq] @ name @ [dq] @ '' not found in browser contexts'')))"
    by (simp add: resolve_def f split: option.splits)
  have a: "findPageByTargetId b targetId = Some p \<longrightarrow> answeredTargetId p = Some targetId"
    by (auto simp: f find_Some_iff dest: getTargetId_answered)
  have q: "getTargetId p = Inr targetId
        \<longleftrightarrow> answeredTargetId p = Some targetId
            \<and> (\<exists>s. newCDPSession p = Inr s \<and> detach s = Inr ())"
    by (auto simp: getTargetId_def answeredTargetId_def split: sum.splits)
  from f r a q show ?thesis by blast
qed

theorem resolve_first_match_witness:
  "findPageByTargetId example_browser ''T2'' = Some page_a
   \<and> answeredTargetId page_a = Some ''T2''
   \<and> resolve ''main'' example_browser ''T2'' = Inr page_a
   \<and> findPageByTargetId example_browser ''T9'' = None
   \<and> resolve ''main'' example_browser ''T9''
       = Inl (JsError (''Page '' @ [dq] @ ''main'' @ [dq] @ '' not found in browser contexts''))"
proof -
  note t2 = resolve_first_match [where name = "''main''" and b = example_browser
      and targetId = "''T2''" and p = page_a]
  note t9 = resolve_first_match [where name = "''main''" and b = example_browser
      and targetId = "''T9''"]
  have c1: "findPageByTargetId example_browser ''T2'' = Some page_a"
    using t2 by (simp add: example_browser_def getTargetId_examples)
  have c2: "answeredTargetId page_a = Some ''T2''"
    using t2 c1 by blast
  have c3: "resolve ''main'' example_browser ''T2'' = Inr page_a"
    using t2 by (simp add: example_browser_def getTargetId_examples)
  have c4: "findPageByTargetId example_browser ''T9'' = None"
    using t9 by (simp add: example_browser_def getTargetId_examples)
  have c5: "resolve ''main'' example_browser ''T9''
       = Inl (JsError (''Page '' @ [dq] @ ''main'' @ [dq] @ '' not found in browser contexts''))"
    using t9 by (simp add: example_browser_def getTargetId_examples)
  from c1 c2 c3 c4 c5 show ?thesis by blast
qed

text \<open>
  C6. \<^verbatim>\<open>ensureConnected\<close> returns the cached browser when there is one and it is
  connected, leaving the state as it was: no endpoint is fetched and no attach is made.
  Otherwise it fetches the endpoint, attaches to it, and caches and returns the new
  browser; this holds in particular from the initial state, where nothing is cached.
\<close>

theorem ensureConnected_cached_or_fresh:
  "(browser st = Some b \<and> isConnected b \<longrightarrow> ensureConnected out st = (Inr b, st))
   \<and> ((\<forall>b0. browser st = Some b0 \<longrightarrow> \<not> isConnected b0)
        \<and> fetchInfo out (calls st) = Inr endpoint
        \<and> connectOverCDP out (calls st @ [FetchInfo]) endpoint = Inr b'
      \<longrightarrow> ensureConnected out st
            = (Inr b', st\<lparr>browser := Some b', wsEndpoint := Some endpoint,
                          calls := calls st @ [FetchInfo, ConnectOverCDP endpoint]\<rparr>))
   \<and> (fetchInfo out [] = Inr endpoint \<and> connectOverCDP out [FetchInfo] endpoint = Inr b'
      \<longrightarrow> ensureConnected out initial
            = (Inr b', \<lparr>browser = Some b', wsEndpoint = Some endpoint,
                        calls = [FetchInfo, ConnectOverCDP endpoint]\<rparr>))"
  by (auto simp: ensureConnected_def initial_def Let_def split: option.splits)

theorem ensureConnected_cached_or_fresh_witness:
  "ensureConnected steady
        \<lparr>browser = Some example_browser, wsEndpoint = Some ''ws://old'', calls = [FetchInfo]\<rparr>
     = (Inr example_browser,
        \<lparr>browser = Some example_browser, wsEndpoint = Some ''ws://old'', calls = [FetchInfo]\<rparr>)
   \<and> ensureConnected steady
        \<lparr>browser = Some (example_browser\<lparr>isConnected := False\<rparr>),
         wsEndpoint = Some ''ws://old'', calls = []\<rparr>
     = (Inr example_browser,
        \<lparr>browser = Some example_browser, wsEndpoint = Some ''ws://127.0.0.1:9223'',
         calls = [FetchInfo, ConnectOverCDP ''ws://127.0.0.1:9223'']\<rparr>)
   \<and> ensureConnected steady initial
     = (Inr example_browser,
        \<lparr>browser = Some example_browser, wsEndpoint = Some ''ws://127.0.0.1:9223'',
         calls = [FetchInfo, ConnectOverCDP ''ws://127.0.0.1:9223'']\<rparr>)"
  using ensureConnected_cached_or_fresh
          [of "\<lparr>browser = Some example_browser, wsEndpoint = Some ''ws://old'',
                calls = [FetchInfo]\<rparr>"
              example_browser steady]
        ensureConnected_cached_or_fresh
          [of "\<lparr>browser = Some (example_browser\<lparr>isConnected := False\<rparr>),
                wsEndpoint = Some ''ws://old'', calls = []\<rparr>"
              _ steady "''ws://127.0.0.1:9223''" example_browser]
  by (simp add: steady_def example_browser_def)

text \<open>
  C5, as the specification states it: an attach that fails because the connection is
  lost is tried a second time before the error reaches the caller, and no other error
  is swallowed. The code does neither. With an attach that fails once and would succeed
  on a second try, \<^verbatim>\<open>ensureConnected\<close> makes one attach and returns the error; and
  an error raised while a page is asked for its target identity is caught and dropped.
\<close>

theorem ensureConnected_retry_counterexample:
  "ensureConnected flaky initial
     = (Inl (JsError ''ConnectionLostError''),
        \<lparr>browser = None, wsEndpoint = Some ''ws://127.0.0.1:9223'',
         calls = [FetchInfo, ConnectOverCDP ''ws://127.0.0.1:9223'']\<rparr>)
   \<and> connectOverCDP flaky [FetchInfo, ConnectOverCDP ''ws://127.0.0.1:9223'']
        ''ws://127.0.0.1:9223''
     = Inr example_browser
   \<and> getTargetId page_closed = Inl (JsError ''Target closed'')
   \<and> findPageByTargetId \<lparr>isConnected = True, contexts = [\<lparr>pages = [page_closed]\<rparr>]\<rparr> ''T1''
     = None"
  by (simp add: ensureConnected_def flaky_def initial_def findPageByTargetId_def
      getTargetId_examples)

text \<open>
  C5, amended. \<^verbatim>\<open>ensureConnected\<close> never retries: when no live connection is cached,
  an error of the endpoint fetch is returned after that one fetch, and an error of the
  attach is returned after one fetch and one attach; \<^verbatim>\<open>page\<close> passes an error of
  \<^verbatim>\<open>ensureConnected\<close> on unchanged. An error raised while a page is asked for its
  target identity is swallowed by \<^verbatim>\<open>findPageByTargetId\<close>: the page is skipped and the
  scan goes on.
\<close>

theorem ensureConnected_single_attempt:
  "((\<forall>b0. browser st = Some b0 \<longrightarrow> \<not> isConnected b0)
        \<and> fetchInfo out (calls st) = Inl e
      \<longrightarrow> ensureConnected out st = (Inl e, st\<lparr>calls := calls st @ [FetchInfo]\<rparr>))
   \<and> ((\<forall>b0. browser st = Some b0 \<longrightarrow> \<not> isConnected b0)
        \<and> fetchInfo out (calls st) = Inr endpoint
        \<and> connectOverCDP out (calls st @ [FetchInfo]) endpoint = Inl e
      \<longrightarrow> ensureConnected out st
            = (Inl e, st\<lparr>wsEndpoint := Some endpoint,
                         calls := calls st @ [FetchInfo, ConnectOverCDP endpoint]\<rparr>))
   \<and> (fetchPostPages out (calls st) name = Inr res \<and> ok res \<and> json_targetId res = Inr targetId
        \<and> ensureConnected out (st\<lparr>calls := calls st @ [FetchPostPages name]\<rparr>) = (Inl e, st')
      \<longrightarrow> page out name st = (Inl e, st'))
   \<and> (getTargetId p = Inl e \<longrightarrow> scanPages (p # ps) targetId = scanPages ps targetId)"
  by (auto simp: ensureConnected_def page_def Let_def split: option.splits)

theorem ensureConnected_single_attempt_witness:
  "ensureConnected flaky initial
     = (Inl (JsError ''ConnectionLostError''),
        initial\<lparr>wsEndpoint := Some ''ws://127.0.0.1:9223'',
                calls := [FetchInfo, ConnectOverCDP ''ws://127.0.0.1:9223'']\<rparr>)
   \<and> page flaky ''main'' initial
     = (Inl (JsError ''ConnectionLostError''),
        initial\<lparr>wsEndpoint := Some ''ws://127.0.0.1:9223'',
                calls := [FetchPostPages ''main'', FetchInfo,
                          ConnectOverCDP ''ws://127.0.0.1:9223'']\<rparr>)
   \<and> scanPages [page_closed, page_a] ''T2'' = scanPages [page_a] ''T2''"
  using ensureConnected_single_attempt
          [where st = initial and out = flaky and endpoint = "''ws://127.0.0.1:9223''"
             and e = "JsError ''ConnectionLostError''" and name = "''main''"
             and res = "\<lparr>ok = True, body_text = Inr [], json_targetId = Inr ''T2''\<rparr>"
             and targetId = "''T2''"
             and st' = "initial\<lparr>wsEndpoint := Some ''ws://127.0.0.1:9223'',
                calls := [FetchPostPages ''main'', FetchInfo,
                          ConnectOverCDP ''ws://127.0.0.1:9223'']\<rparr>"]
        ensureConnected_single_attempt
          [where e = "JsError ''Target closed''" and p = page_closed and ps = "[page_a]"
             and targetId = "''T2''"]
  by (simp add: flaky_def initial_def ensureConnected_def page_def getTargetId_examples)

section \<open>Properties of the tools\<close>

lemma bindIO_perform:
  "bindIO (perform a f) k tr =
     (case f tr of Inl e \<Rightarrow> (Inl e, tr @ [a]) | Inr x \<Rightarrow> k x (tr @ [a]))"
  by (simp add: bindIO_def perform_def split: sum.splits)

lemmas client_defs =
  client_getAISnapshot_def client_page_def client_selectSnapshotRef_def client_list_def
  client_close_def page_goto_def waitForPageLoad_def element_click_def element_fill_def
  element_type_def page_screenshot_def page_mouse_wheel_def run_script_def

lemma required_cases:
  "required v msg k tr =
     (case v of None \<Rightarrow> (Inl (JsError msg), tr)
      | Some s \<Rightarrow> if s = [] then (Inl (JsError msg), tr) else k s tr)"
  by (simp add: required_def throwIO_def split: option.splits)

lemma navigate_ok:
  assumes "browser_navigate cl pn args tr = (Inr result, tr')"
  shows "\<exists>url p snapshot.
           tr' = tr @ [ClientPage pn, Goto p url, WaitForPageLoad p None, GetAISnapshot pn]
         \<and> on_getAISnapshot cl (tr @ [ClientPage pn, Goto p url, WaitForPageLoad p None]) pn
             = Inr snapshot
         \<and> result = [textContent (''Navigated to '' @ url @ [nl, nl] @ snapshot)]"
  using assms
  by (auto simp: browser_navigate_def required_cases bindIO_perform client_defs returnIO_def
      split: option.splits sum.splits if_splits)

lemma click_ok:
  assumes "browser_click cl pn args tr = (Inr result, tr')"
  shows "\<exists>ref el p snapshot.
           tr' = tr @ [SelectSnapshotRef pn ref, Click el, ClientPage pn, WaitForPageLoad p None,
                       GetAISnapshot pn]
         \<and> on_getAISnapshot cl
               (tr @ [SelectSnapshotRef pn ref, Click el, ClientPage pn, WaitForPageLoad p None]) pn
             = Inr snapshot
         \<and> result = [textContent (''Clicked element [ref='' @ ref @ '']'' @ [nl, nl] @ snapshot)]"
  using assms
  by (auto simp: browser_click_def required_cases bindIO_perform client_defs returnIO_def
      throwIO_def split: option.splits sum.splits if_splits)

lemma type_ok:
  assumes "browser_type cl pn args tr = (Inr result, tr')"
  shows "\<exists>ref txt el act snapshot.
           tr' = tr @ [SelectSnapshotRef pn ref, act, GetAISnapshot pn]
         \<and> act = (if argOf args arg_clear = Some True then Fill el txt else TypeText el txt)
         \<and> on_getAISnapshot cl (tr @ [SelectSnapshotRef pn ref, act]) pn = Inr snapshot
         \<and> result = [textContent
              (''Typed '' @ [dq] @ txt @ [dq] @ '' into [ref='' @ ref @ '']'' @ [nl, nl] @ snapshot)]"
  using assms
  by (auto simp: browser_type_def required_cases bindIO_perform client_defs returnIO_def
      throwIO_def split: option.splits sum.splits if_splits)

lemma scroll_ok:
  assumes "browser_scroll cl pn args tr = (Inr result, tr')"
  shows "\<exists>direction p snapshot.
           tr' = tr @ [ClientPage pn, MouseWheel p 0 (scrollDelta direction (scrollAmount args)),
                       WaitForPageLoad p (Some 2000), GetAISnapshot pn]
         \<and> on_getAISnapshot cl
               (tr @ [ClientPage pn, MouseWheel p 0 (scrollDelta direction (scrollAmount args)),
                      WaitForPageLoad p (Some 2000)]) pn
             = Inr snapshot
         \<and> result = [textContent
              (''Scrolled '' @ direction @ '' '' @ numberToString cl (scrollAmount args) @ ''px'' @ [nl, nl]
               @ snapshot)]"
  using assms
  by (auto simp: browser_scroll_def required_cases bindIO_perform client_defs returnIO_def
      throwIO_def Let_def split: option.splits sum.splits if_splits)


lemma handleToolCall_ok:
  "runTool cl name args tr = (Inr result, tr') \<Longrightarrow> handleToolCall cl name args tr = (Inr result, tr')"
  by (simp add: handleToolCall_def)

lemma handleToolCall_trace:
  "snd (handleToolCall cl name args tr) = snd (runTool cl name args tr)"
  by (simp add: handleToolCall_def split: prod.splits sum.splits)

lemmas eval_defs =
  runTool_def handleToolCall_def messageOf_def errorText_def pageNameOf_def argOf_def no_args_def
  browser_snapshot_def browser_navigate_def browser_click_def browser_type_def
  browser_screenshot_def browser_scroll_def browser_run_script_def browser_list_pages_def
  browser_close_page_def required_def bindIO_def perform_def client_defs returnIO_def
  throwIO_def example_client_def scrollAmount_def scrollDelta_def Let_def

lemmas run_simps =
  handleToolCall_def runTool_def Let_def required_cases bindIO_perform client_defs returnIO_def
  throwIO_def

lemma navigate_runs:
  assumes "argOf args arg_url = Some url" "url \<noteq> []"
    and "on_page cl tr pn = Inr p"
    and "on_goto cl (tr @ [ClientPage pn]) p url = Inr ()"
    and "on_waitForPageLoad cl (tr @ [ClientPage pn, Goto p url]) p None = Inr ()"
    and "on_getAISnapshot cl (tr @ [ClientPage pn, Goto p url, WaitForPageLoad p None]) pn
         = Inr snapshot"
  shows "browser_navigate cl pn args tr
         = (Inr [textContent (''Navigated to '' @ url @ [nl, nl] @ snapshot)],
            tr @ [ClientPage pn, Goto p url, WaitForPageLoad p None, GetAISnapshot pn])"
  using assms by (simp add: browser_navigate_def run_simps)

lemma click_runs:
  assumes "argOf args arg_ref = Some ref" "ref \<noteq> []"
    and "on_selectSnapshotRef cl tr pn ref = Inr (Some el)"
    and "on_click cl (tr @ [SelectSnapshotRef pn ref]) el = Inr ()"
    and "on_page cl (tr @ [SelectSnapshotRef pn ref, Click el]) pn = Inr p"
    and "on_waitForPageLoad cl (tr @ [SelectSnapshotRef pn ref, Click el, ClientPage pn]) p None
         = Inr ()"
    and "on_getAISnapshot cl
           (tr @ [SelectSnapshotRef pn ref, Click el, ClientPage pn, WaitForPageLoad p None]) pn
         = Inr snapshot"
  shows "browser_click cl pn args tr
         = (Inr [textContent (''Clicked element [ref='' @ ref @ '']'' @ [nl, nl] @ snapshot)],
            tr @ [SelectSnapshotRef pn ref, Click el, ClientPage pn, WaitForPageLoad p None,
                  GetAISnapshot pn])"
  using assms by (simp add: browser_click_def run_simps)

lemma type_runs:
  assumes "argOf args arg_ref = Some ref" "ref \<noteq> []"
    and "argOf args arg_text = Some typed" "typed \<noteq> []"
    and "on_selectSnapshotRef cl tr pn ref = Inr (Some el)"
    and "(if argOf args arg_clear = Some True
          then on_fill cl (tr @ [SelectSnapshotRef pn ref]) el typed
          else on_type cl (tr @ [SelectSnapshotRef pn ref]) el typed) = Inr ()"
    and "on_getAISnapshot cl
           (tr @ [SelectSnapshotRef pn ref,
                  if argOf args arg_clear = Some True then Fill el typed else TypeText el typed]) pn
         = Inr snapshot"
  shows "browser_type cl pn args tr
         = (Inr [textContent (''Typed '' @ [dq] @ typed @ [dq] @ '' into [ref='' @ ref @ '']''
                              @ [nl, nl] @ snapshot)],
            tr @ [SelectSnapshotRef pn ref,
                  if argOf args arg_clear = Some True then Fill el typed else TypeText el typed,
                  GetAISnapshot pn])"
  using assms by (simp add: browser_type_def run_simps split: if_splits)

lemma scroll_runs:
  assumes "argOf args arg_direction = Some direction" "direction \<noteq> []"
    and "on_page cl tr pn = Inr p"
    and "on_wheel cl (tr @ [ClientPage pn]) p 0 (scrollDelta direction (scrollAmount args)) = Inr ()"
    and "on_waitForPageLoad cl
           (tr @ [ClientPage pn, MouseWheel p 0 (scrollDelta direction (scrollAmount args))])
           p (Some 2000) = Inr ()"
    and "on_getAISnapshot cl
           (tr @ [ClientPage pn, MouseWheel p 0 (scrollDelta direction (scrollAmount args)),
                  WaitForPageLoad p (Some 2000)]) pn
         = Inr snapshot"
  shows "browser_scroll cl pn args tr
         = (Inr [textContent (''Scrolled '' @ direction @ '' ''
                              @ numberToString cl (scrollAmount args) @ ''px'' @ [nl, nl]
                              @ snapshot)],
            tr @ [ClientPage pn, MouseWheel p 0 (scrollDelta direction (scrollAmount args)),
                  WaitForPageLoad p (Some 2000), GetAISnapshot pn])"
  using assms by (simp add: browser_scroll_def run_simps)

lemma currentAfter_snoc:
  "currentAfter eng before (xs @ [a]) cur
   = snapshotStep eng (before @ xs) a (currentAfter eng before xs cur)"
  by (induction xs arbitrary: before cur) simp_all

lemma currentAfter_quiet:
  "list_all (\<lambda>a. \<forall>n. a \<noteq> GetAISnapshot n) xs
   \<Longrightarrow> currentAfter eng before xs cur = cur"
proof (induction xs arbitrary: before)
  case Nil
  then show ?case by simp
next
  case (Cons a xs)
  then have "snapshotStep eng before a cur = cur"
    by (cases a) auto
  with Cons show ?case by simp
qed

lemma withEngine_snapshot:
  "on_getAISnapshot (withEngine cl eng) tr pn = Inr display
   \<Longrightarrow> \<exists>m. eng tr pn = Inr (display, m)"
  by (auto simp: withEngine_def split: sum.splits)

lemma superseded_by_snapshot:
  assumes quiet: "list_all (\<lambda>a. \<forall>n. a \<noteq> GetAISnapshot n) mid"
    and eng: "eng (tr @ mid) pn = Inr (display, m)"
  shows "currentAfter eng tr (mid @ [GetAISnapshot pn]) cur pn
           = \<lparr>sequenceNumber = Suc (sequenceNumber (cur pn)), refMap = m\<rparr>
         \<and> (\<forall>ref. m ref = None
              \<longrightarrow> resolveElement (currentAfter eng tr (mid @ [GetAISnapshot pn]) cur) locate pn ref
                  = Inl StaleRefError)"
proof -
  have "currentAfter eng tr (mid @ [GetAISnapshot pn]) cur = supersede cur pn m"
    using quiet eng by (simp add: currentAfter_snoc currentAfter_quiet)
  then show ?thesis
    by (simp add: supersede_def resolveElement_def)
qed


lemma mutating_tool_trace:
  assumes tool: "name \<in> {''browser_navigate'', ''browser_click'', ''browser_type'', ''browser_scroll''}"
    and ok: "runTool cl name args tr = (Inr result, tr')"
  shows "\<exists>mid snapshot prefix.
           tr' = tr @ mid @ [GetAISnapshot (pageNameOf args)]
         \<and> list_all (\<lambda>a. \<forall>n. a \<noteq> GetAISnapshot n) mid
         \<and> on_getAISnapshot cl (tr @ mid) (pageNameOf args) = Inr snapshot
         \<and> result = [textContent (prefix @ [nl, nl] @ snapshot)]"
proof -
  let ?pn = "pageNameOf args"
  consider (nav) "name = ''browser_navigate''" | (click) "name = ''browser_click''"
    | (ty) "name = ''browser_type''" | (scroll) "name = ''browser_scroll''"
    using tool by auto
  then show ?thesis
  proof cases
    case nav
    with ok have "browser_navigate cl ?pn args tr = (Inr result, tr')"
      by (simp add: runTool_def)
    from navigate_ok [OF this] obtain url p snapshot where
      "tr' = tr @ [ClientPage ?pn, Goto p url, WaitForPageLoad p None] @ [GetAISnapshot ?pn]"
      "on_getAISnapshot cl (tr @ [ClientPage ?pn, Goto p url, WaitForPageLoad p None]) ?pn = Inr snapshot"
      "result = [textContent ((''Navigated to '' @ url) @ [nl, nl] @ snapshot)]"
      by auto
    moreover have "list_all (\<lambda>a. \<forall>n. a \<noteq> GetAISnapshot n)
        [ClientPage ?pn, Goto p url, WaitForPageLoad p None]"
      by simp
    ultimately show ?thesis by blast
  next
    case click
    with ok have "browser_click cl ?pn args tr = (Inr result, tr')"
      by (simp add: runTool_def)
    from click_ok [OF this] obtain ref el p snapshot where
      "tr' = tr @ [SelectSnapshotRef ?pn ref, Click el, ClientPage ?pn, WaitForPageLoad p None]
                @ [GetAISnapshot ?pn]"
      "on_getAISnapshot cl
         (tr @ [SelectSnapshotRef ?pn ref, Click el, ClientPage ?pn, WaitForPageLoad p None]) ?pn
       = Inr snapshot"
      "result = [textContent ((''Clicked element [ref='' @ ref @ '']'') @ [nl, nl] @ snapshot)]"
      by auto
    moreover have "list_all (\<lambda>a. \<forall>n. a \<noteq> GetAISnapshot n)
        [SelectSnapshotRef ?pn ref, Click el, ClientPage ?pn, WaitForPageLoad p None]"
      by simp
    ultimately show ?thesis by blast
  next
    case ty
    with ok have "browser_type cl ?pn args tr = (Inr result, tr')"
      by (simp add: runTool_def)
    from type_ok [OF this] obtain ref typed el act snapshot where
      "tr' = tr @ [SelectSnapshotRef ?pn ref, act] @ [GetAISnapshot ?pn]"
      "on_getAISnapshot cl (tr @ [SelectSnapshotRef ?pn ref, act]) ?pn = Inr snapshot"
      "result = [textContent
         ((''Typed '' @ [dq] @ typed @ [dq] @ '' into [ref='' @ ref @ '']'') @ [nl, nl] @ snapshot)]"
      and act: "act = (if argOf args arg_clear = Some True then Fill el typed else TypeText el typed)"
      by auto
    moreover have "list_all (\<lambda>a. \<forall>n. a \<noteq> GetAISnapshot n) [SelectSnapshotRef ?pn ref, act]"
      using act by simp
    ultimately show ?thesis by blast
  next
    case scroll
    with ok have "browser_scroll cl ?pn args tr = (Inr result, tr')"
      by (simp add: runTool_def)
    from scroll_ok [OF this] obtain direction p snapshot where
      "tr' = tr @ [ClientPage ?pn, MouseWheel p 0 (scrollDelta direction (scrollAmount args)),
                   WaitForPageLoad p (Some 2000)] @ [GetAISnapshot ?pn]"
      "on_getAISnapshot cl
         (tr @ [ClientPage ?pn, MouseWheel p 0 (scrollDelta direction (scrollAmount args)),
                WaitForPageLoad p (Some 2000)]) ?pn
       = Inr snapshot"
      "result = [textContent
         ((''Scrolled '' @ direction @ '' '' @ numberToString cl (scrollAmount args) @ ''px'')
          @ [nl, nl] @ snapshot)]"
      by auto
    moreover have "list_all (\<lambda>a. \<forall>n. a \<noteq> GetAISnapshot n)
        [ClientPage ?pn, MouseWheel p 0 (scrollDelta direction (scrollAmount args)),
         WaitForPageLoad p (Some 2000)]"
      by simp
    ultimately show ?thesis by blast
  qed
qed

text \<open>
  C9. \<^verbatim>\<open>browser_navigate\<close>, \<^verbatim>\<open>browser_click\<close>, \<^verbatim>\<open>browser_type\<close> and \<^verbatim>\<open>browser_scroll\<close>
  end a successful call with a fresh snapshot of their page, in both directions.
  Whenever the body of one of them returns without throwing, \<^verbatim>\<open>getAISnapshot\<close> on the
  tool's page is the last call made, and the text returned is a line about the action,
  an empty line, and the snapshot that call produced. And each of the four does
  succeed so: when its required arguments are given and every call it makes succeeds,
  it makes exactly the calls listed, the last of them \<^verbatim>\<open>getAISnapshot\<close>, and returns that
  text. With the Snapshot Engine of the specification behind \<^verbatim>\<open>getAISnapshot\<close>, the
  snapshot taken is the only one of the call, so after the call the page's current
  snapshot is the new one (the sequence number one higher, the \<open>refMap\<close> the new one), the
  text carries its display form, and every ref absent from the new \<open>refMap\<close> is stale.
\<close>

theorem mutating_tools_end_with_snapshot:
  "(name \<in> {''browser_navigate'', ''browser_click'', ''browser_type'', ''browser_scroll''}
      \<and> runTool cl name args tr = (Inr result, tr')
    \<longrightarrow> (\<exists>mid snapshot prefix.
           tr' = tr @ mid @ [GetAISnapshot (pageNameOf args)]
         \<and> on_getAISnapshot cl (tr @ mid) (pageNameOf args) = Inr snapshot
         \<and> result = [textContent (prefix @ [nl, nl] @ snapshot)]
         \<and> handleToolCall cl name args tr = (Inr result, tr')))
   \<and> (name \<in> {''browser_navigate'', ''browser_click'', ''browser_type'', ''browser_scroll''}
      \<and> runTool (withEngine cl eng) name args tr = (Inr result, tr')
    \<longrightarrow> (\<exists>mid display m prefix.
           tr' = tr @ mid @ [GetAISnapshot (pageNameOf args)]
         \<and> eng (tr @ mid) (pageNameOf args) = Inr (display, m)
         \<and> result = [textContent (prefix @ [nl, nl] @ display)]
         \<and> currentAfter eng tr (mid @ [GetAISnapshot (pageNameOf args)]) current (pageNameOf args)
             = \<lparr>sequenceNumber = Suc (sequenceNumber (current (pageNameOf args))), refMap = m\<rparr>
         \<and> (\<forall>r. m r = None
              \<longrightarrow> resolveElement
                    (currentAfter eng tr (mid @ [GetAISnapshot (pageNameOf args)]) current)
                    locate (pageNameOf args) r
                  = Inl StaleRefError)))
   \<and> (argOf args arg_url = Some url \<and> url \<noteq> []
      \<and> on_page cl tr (pageNameOf args) = Inr p
      \<and> on_goto cl (tr @ [ClientPage (pageNameOf args)]) p url = Inr ()
      \<and> on_waitForPageLoad cl (tr @ [ClientPage (pageNameOf args), Goto p url]) p None = Inr ()
      \<and> on_getAISnapshot cl
           (tr @ [ClientPage (pageNameOf args), Goto p url, WaitForPageLoad p None])
           (pageNameOf args) = Inr snapshot
    \<longrightarrow> handleToolCall cl ''browser_navigate'' args tr
        = (Inr [textContent (''Navigated to '' @ url @ [nl, nl] @ snapshot)],
           tr @ [ClientPage (pageNameOf args), Goto p url, WaitForPageLoad p None,
                 GetAISnapshot (pageNameOf args)]))
   \<and> (argOf args arg_ref = Some ref \<and> ref \<noteq> []
      \<and> on_selectSnapshotRef cl tr (pageNameOf args) ref = Inr (Some el)
      \<and> on_click cl (tr @ [SelectSnapshotRef (pageNameOf args) ref]) el = Inr ()
      \<and> on_page cl (tr @ [SelectSnapshotRef (pageNameOf args) ref, Click el]) (pageNameOf args)
          = Inr p
      \<and> on_waitForPageLoad cl
           (tr @ [SelectSnapshotRef (pageNameOf args) ref, Click el, ClientPage (pageNameOf args)])
           p None = Inr ()
      \<and> on_getAISnapshot cl
           (tr @ [SelectSnapshotRef (pageNameOf args) ref, Click el, ClientPage (pageNameOf args),
                  WaitForPageLoad p None])
           (pageNameOf args) = Inr snapshot
    \<longrightarrow> handleToolCall cl ''browser_click'' args tr
        = (Inr [textContent (''Clicked element [ref='' @ ref @ '']'' @ [nl, nl] @ snapshot)],
           tr @ [SelectSnapshotRef (pageNameOf args) ref, Click el, ClientPage (pageNameOf args),
                 WaitForPageLoad p None, GetAISnapshot (pageNameOf args)]))
   \<and> (argOf args arg_ref = Some ref \<and> ref \<noteq> []
      \<and> argOf args arg_text = Some typed \<and> typed \<noteq> []
      \<and> on_selectSnapshotRef cl tr (pageNameOf args) ref = Inr (Some el)
      \<and> (if argOf args arg_clear = Some True
          then on_fill cl (tr @ [SelectSnapshotRef (pageNameOf args) ref]) el typed
          else on_type cl (tr @ [SelectSnapshotRef (pageNameOf args) ref]) el typed) = Inr ()
      \<and> on_getAISnapshot cl
           (tr @ [SelectSnapshotRef (pageNameOf args) ref,
                  if argOf args arg_clear = Some True then Fill el typed else TypeText el typed])
           (pageNameOf args) = Inr snapshot
    \<longrightarrow> handleToolCall cl ''browser_type'' args tr
        = (Inr [textContent (''Typed '' @ [dq] @ typed @ [dq] @ '' into [ref='' @ ref @ '']''
                             @ [nl, nl] @ snapshot)],
           tr @ [SelectSnapshotRef (pageNameOf args) ref,
                 if argOf args arg_clear = Some True then Fill el typed else TypeText el typed,
                 GetAISnapshot (pageNameOf args)]))
   \<and> (argOf args arg_direction = Some direction \<and> direction \<noteq> []
      \<and> on_page cl tr (pageNameOf args) = Inr p
      \<and> on_wheel cl (tr @ [ClientPage (pageNameOf args)]) p 0
           (scrollDelta direction (scrollAmount args)) = Inr ()
      \<and> on_waitForPageLoad cl
           (tr @ [ClientPage (pageNameOf args),
                  MouseWheel p 0 (scrollDelta direction (scrollAmount args))])
           p (Some 2000) = Inr ()
      \<and> on_getAISnapshot cl
           (tr @ [ClientPage (pageNameOf args),
                  MouseWheel p 0 (scrollDelta direction (scrollAmount args)),
                  WaitForPageLoad p (Some 2000)])
           (pageNameOf args) = Inr snapshot
    \<longrightarrow> handleToolCall cl ''browser_scroll'' args tr
        = (Inr [textContent (''Scrolled '' @ direction @ '' ''
                             @ numberToString cl (scrollAmount args) @ ''px'' @ [nl, nl]
                             @ snapshot)],
           tr @ [ClientPage (pageNameOf args),
                 MouseWheel p 0 (scrollDelta direction (scrollAmount args)),
                 WaitForPageLoad p (Some 2000), GetAISnapshot (pageNameOf args)]))"
proof (intro conjI impI)
  assume a: "name \<in> {''browser_navigate'', ''browser_click'', ''browser_type'', ''browser_scroll''}
      \<and> runTool cl name args tr = (Inr result, tr')"
  then have "handleToolCall cl name args tr = (Inr result, tr')"
    by (simp add: handleToolCall_ok)
  with mutating_tool_trace [of name cl args tr result tr'] a
  show "\<exists>mid snapshot prefix.
           tr' = tr @ mid @ [GetAISnapshot (pageNameOf args)]
         \<and> on_getAISnapshot cl (tr @ mid) (pageNameOf args) = Inr snapshot
         \<and> result = [textContent (prefix @ [nl, nl] @ snapshot)]
         \<and> handleToolCall cl name args tr = (Inr result, tr')"
    by blast
next
  let ?pn = "pageNameOf args"
  assume a: "name \<in> {''browser_navigate'', ''browser_click'', ''browser_type'', ''browser_scroll''}
      \<and> runTool (withEngine cl eng) name args tr = (Inr result, tr')"
  with mutating_tool_trace [of name "withEngine cl eng" args tr result tr']
  obtain mid display prefix where
    tr': "tr' = tr @ mid @ [GetAISnapshot ?pn]"
    and quiet: "list_all (\<lambda>a. \<forall>n. a \<noteq> GetAISnapshot n) mid"
    and snap: "on_getAISnapshot (withEngine cl eng) (tr @ mid) ?pn = Inr display"
    and res: "result = [textContent (prefix @ [nl, nl] @ display)]"
    by blast
  from withEngine_snapshot [OF snap] obtain m where m: "eng (tr @ mid) ?pn = Inr (display, m)"
    by blast
  from superseded_by_snapshot [where eng = eng and tr = tr and mid = mid and pn = ?pn
      and display = display and m = m and cur = current and locate = locate, OF quiet m] tr' m res
  show "\<exists>mid display m prefix.
           tr' = tr @ mid @ [GetAISnapshot ?pn]
         \<and> eng (tr @ mid) ?pn = Inr (display, m)
         \<and> result = [textContent (prefix @ [nl, nl] @ display)]
         \<and> currentAfter eng tr (mid @ [GetAISnapshot ?pn]) current ?pn
             = \<lparr>sequenceNumber = Suc (sequenceNumber (current ?pn)), refMap = m\<rparr>
         \<and> (\<forall>r. m r = None
              \<longrightarrow> resolveElement (currentAfter eng tr (mid @ [GetAISnapshot ?pn]) current)
                    locate ?pn r
                  = Inl StaleRefError)"
    by blast
next
  assume "argOf args arg_url = Some url \<and> url \<noteq> []
      \<and> on_page cl tr (pageNameOf args) = Inr p
      \<and> on_goto cl (tr @ [ClientPage (pageNameOf args)]) p url = Inr ()
      \<and> on_waitForPageLoad cl (tr @ [ClientPage (pageNameOf args), Goto p url]) p None = Inr ()
      \<and> on_getAISnapshot cl
           (tr @ [ClientPage (pageNameOf args), Goto p url, WaitForPageLoad p None])
           (pageNameOf args) = Inr snapshot"
  then have "browser_navigate cl (pageNameOf args) args tr
        = (Inr [textContent (''Navigated to '' @ url @ [nl, nl] @ snapshot)],
           tr @ [ClientPage (pageNameOf args), Goto p url, WaitForPageLoad p None,
                 GetAISnapshot (pageNameOf args)])"
    by (intro navigate_runs) simp_all
  then show "handleToolCall cl ''browser_navigate'' args tr
        = (Inr [textContent (''Navigated to '' @ url @ [nl, nl] @ snapshot)],
           tr @ [ClientPage (pageNameOf args), Goto p url, WaitForPageLoad p None,
                 GetAISnapshot (pageNameOf args)])"
    by (intro handleToolCall_ok) (simp add: runTool_def)
next
  assume "argOf args arg_ref = Some ref \<and> ref \<noteq> []
      \<and> on_selectSnapshotRef cl tr (pageNameOf args) ref = Inr (Some el)
      \<and> on_click cl (tr @ [SelectSnapshotRef (pageNameOf args) ref]) el = Inr ()
      \<and> on_page cl (tr @ [SelectSnapshotRef (pageNameOf args) ref, Click el]) (pageNameOf args)
          = Inr p
      \<and> on_waitForPageLoad cl
           (tr @ [SelectSnapshotRef (pageNameOf args) ref, Click el, ClientPage (pageNameOf args)])
           p None = Inr ()
      \<and> on_getAISnapshot cl
           (tr @ [SelectSnapshotRef (pageNameOf args) ref, Click el, ClientPage (pageNameOf args),
                  WaitForPageLoad p None])
           (pageNameOf args) = Inr snapshot"
  then have "browser_click cl (pageNameOf args) args tr
        = (Inr [textContent (''Clicked element [ref='' @ ref @ '']'' @ [nl, nl] @ snapshot)],
           tr @ [SelectSnapshotRef (pageNameOf args) ref, Click el, ClientPage (pageNameOf args),
                 WaitForPageLoad p None, GetAISnapshot (pageNameOf args)])"
    by (intro click_runs) simp_all
  then show "handleToolCall cl ''browser_click'' args tr
        = (Inr [textContent (''Clicked element [ref='' @ ref @ '']'' @ [nl, nl] @ snapshot)],
           tr @ [SelectSnapshotRef (pageNameOf args) ref, Click el, ClientPage (pageNameOf args),
                 WaitForPageLoad p None, GetAISnapshot (pageNameOf args)])"
    by (intro handleToolCall_ok) (simp add: runTool_def)
next
  assume "argOf args arg_ref = Some ref \<and> ref \<noteq> []
      \<and> argOf args arg_text = Some typed \<and> typed \<noteq> []
      \<and> on_selectSnapshotRef cl tr (pageNameOf args) ref = Inr (Some el)
      \<and> (if argOf args arg_clear = Some True
          then on_fill cl (tr @ [SelectSnapshotRef (pageNameOf args) ref]) el typed
          else on_type cl (tr @ [SelectSnapshotRef (pageNameOf args) ref]) el typed) = Inr ()
      \<and> on_getAISnapshot cl
           (tr @ [SelectSnapshotRef (pageNameOf args) ref,
                  if argOf args arg_clear = Some True then Fill el typed else TypeText el typed])
           (pageNameOf args) = Inr snapshot"
  then have "browser_type cl (pageNameOf args) args tr
        = (Inr [textContent (''Typed '' @ [dq] @ typed @ [dq] @ '' into [ref='' @ ref @ '']''
                             @ [nl, nl] @ snapshot)],
           tr @ [SelectSnapshotRef (pageNameOf args) ref,
                 if argOf args arg_clear = Some True then Fill el typed else TypeText el typed,
                 GetAISnapshot (pageNameOf args)])"
    by (intro type_runs) simp_all
  then show "handleToolCall cl ''browser_type'' args tr
        = (Inr [textContent (''Typed '' @ [dq] @ typed @ [dq] @ '' into [ref='' @ ref @ '']''
                             @ [nl, nl] @ snapshot)],
           tr @ [SelectSnapshotRef (pageNameOf args) ref,
                 if argOf args arg_clear = Some True then Fill el typed else TypeText el typed,
                 GetAISnapshot (pageNameOf args)])"
    by (intro handleToolCall_ok) (simp add: runTool_def)
next
  assume "argOf args arg_direction = Some direction \<and> direction \<noteq> []
      \<and> on_page cl tr (pageNameOf args) = Inr p
      \<and> on_wheel cl (tr @ [ClientPage (pageNameOf args)]) p 0
           (scrollDelta direction (scrollAmount args)) = Inr ()
      \<and> on_waitForPageLoad cl
           (tr @ [ClientPage (pageNameOf args),
                  MouseWheel p 0 (scrollDelta direction (scrollAmount args))])
           p (Some 2000) = Inr ()
      \<and> on_getAISnapshot cl
           (tr @ [ClientPage (pageNameOf args),
                  MouseWheel p 0 (scrollDelta direction (scrollAmount args)),
                  WaitForPageLoad p (Some 2000)])
           (pageNameOf args) = Inr snapshot"
  then have "browser_scroll cl (pageNameOf args) args tr
        = (Inr [textContent (''Scrolled '' @ direction @ '' ''
                             @ numberToString cl (scrollAmount args) @ ''px'' @ [nl, nl]
                             @ snapshot)],
           tr @ [ClientPage (pageNameOf args),
                 MouseWheel p 0 (scrollDelta direction (scrollAmount args)),
                 WaitForPageLoad p (Some 2000), GetAISnapshot (pageNameOf args)])"
    by (intro scroll_runs) simp_all
  then show "handleToolCall cl ''browser_scroll'' args tr
        = (Inr [textContent (''Scrolled '' @ direction @ '' ''
                             @ numberToString cl (scrollAmount args) @ ''px'' @ [nl, nl]
                             @ snapshot)],
           tr @ [ClientPage (pageNameOf args),
                 MouseWheel p 0 (scrollDelta direction (scrollAmount args)),
                 WaitForPageLoad p (Some 2000), GetAISnapshot (pageNameOf args)])"
    by (intro handleToolCall_ok) (simp add: runTool_def)
qed


theorem mutating_tools_end_with_snapshot_witness:
  "handleToolCall example_client ''browser_navigate''
       (Some (no_args\<lparr>arg_url := Some ''https://example.com''\<rparr>)) []
     = (Inr [textContent (''Navigated to https://example.com'' @ [nl, nl] @ ''- button [ref=e1]'')],
        [ClientPage ''default'', Goto 7 ''https://example.com'', WaitForPageLoad 7 None,
         GetAISnapshot ''default''])
   \<and> handleToolCall example_client ''browser_click'' (Some (no_args\<lparr>arg_ref := Some ''e1''\<rparr>)) []
     = (Inr [textContent (''Clicked element [ref=e1]'' @ [nl, nl] @ ''- button [ref=e1]'')],
        [SelectSnapshotRef ''default'' ''e1'', Click 3, ClientPage ''default'',
         WaitForPageLoad 7 None, GetAISnapshot ''default''])
   \<and> handleToolCall example_client ''browser_type''
       (Some (no_args\<lparr>arg_ref := Some ''e1'', arg_text := Some ''hi''\<rparr>)) []
     = (Inr [textContent (''Typed '' @ [dq] @ ''hi'' @ [dq] @ '' into [ref=e1]'' @ [nl, nl]
                          @ ''- button [ref=e1]'')],
        [SelectSnapshotRef ''default'' ''e1'', TypeText 3 ''hi'', GetAISnapshot ''default''])
   \<and> handleToolCall example_client ''browser_scroll''
       (Some (no_args\<lparr>arg_direction := Some ''down''\<rparr>)) []
     = (Inr [textContent (''Scrolled down 500px'' @ [nl, nl] @ ''- button [ref=e1]'')],
        [ClientPage ''default'', MouseWheel 7 0 500, WaitForPageLoad 7 (Some 2000),
         GetAISnapshot ''default''])
   \<and> currentAfter example_engine []
        ([SelectSnapshotRef ''default'' ''e1'', Click 3, ClientPage ''default'',
          WaitForPageLoad 7 None] @ [GetAISnapshot ''default''])
        example_current ''default''
     = \<lparr>sequenceNumber = 2, refMap = [''e1'' \<mapsto> 10]\<rparr>
   \<and> resolveElement
        (currentAfter example_engine []
           ([SelectSnapshotRef ''default'' ''e1'', Click 3, ClientPage ''default'',
             WaitForPageLoad 7 None] @ [GetAISnapshot ''default''])
           example_current)
        [10 \<mapsto> 100, 11 \<mapsto> 101] ''default'' ''e2''
     = Inl StaleRefError"
proof -
  let ?nav = "Some (no_args\<lparr>arg_url := Some ''https://example.com''\<rparr>)"
  let ?click = "Some (no_args\<lparr>arg_ref := Some ''e1''\<rparr>)"
  let ?type = "Some (no_args\<lparr>arg_ref := Some ''e1'', arg_text := Some ''hi''\<rparr>)"
  let ?scroll = "Some (no_args\<lparr>arg_direction := Some ''down''\<rparr>)"
  let ?mid = "[SelectSnapshotRef ''default'' ''e1'', Click 3, ClientPage ''default'',
      WaitForPageLoad 7 None]"
  have pn: "pageNameOf ?nav = ''default''" "pageNameOf ?click = ''default''"
    "pageNameOf ?type = ''default''" "pageNameOf ?scroll = ''default''"
    by (simp_all add: pageNameOf_def argOf_def no_args_def)
  note nav = mutating_tools_end_with_snapshot [where cl = example_client and args = ?nav and tr = "[]"
      and url = "''https://example.com''" and p = 7 and snapshot = "''- button [ref=e1]''",
      THEN conjunct2, THEN conjunct2, THEN conjunct1, THEN mp]
  have "handleToolCall example_client ''browser_navigate'' ?nav []
     = (Inr [textContent (''Navigated to '' @ ''https://example.com'' @ [nl, nl]
                          @ ''- button [ref=e1]'')],
        [] @ [ClientPage (pageNameOf ?nav), Goto 7 ''https://example.com'',
              WaitForPageLoad 7 None, GetAISnapshot (pageNameOf ?nav)])"
    by (rule nav) (simp add: pn argOf_def no_args_def example_client_def)
  then have c1: "handleToolCall example_client ''browser_navigate'' ?nav []
     = (Inr [textContent (''Navigated to https://example.com'' @ [nl, nl] @ ''- button [ref=e1]'')],
        [ClientPage ''default'', Goto 7 ''https://example.com'', WaitForPageLoad 7 None,
         GetAISnapshot ''default''])"
    by (simp add: pn)
  note click = mutating_tools_end_with_snapshot [where cl = example_client and args = ?click
      and tr = "[]" and ref = "''e1''" and el = 3 and p = 7 and snapshot = "''- button [ref=e1]''",
      THEN conjunct2, THEN conjunct2, THEN conjunct2, THEN conjunct1, THEN mp]
  have "handleToolCall example_client ''browser_click'' ?click []
     = (Inr [textContent (''Clicked element [ref='' @ ''e1'' @ '']'' @ [nl, nl]
                          @ ''- button [ref=e1]'')],
        [] @ [SelectSnapshotRef (pageNameOf ?click) ''e1'', Click 3, ClientPage (pageNameOf ?click),
              WaitForPageLoad 7 None, GetAISnapshot (pageNameOf ?click)])"
    by (rule click) (simp add: pn argOf_def no_args_def example_client_def)
  then have c2: "handleToolCall example_client ''browser_click'' ?click []
     = (Inr [textContent (''Clicked element [ref=e1]'' @ [nl, nl] @ ''- button [ref=e1]'')],
        [SelectSnapshotRef ''default'' ''e1'', Click 3, ClientPage ''default'',
         WaitForPageLoad 7 None, GetAISnapshot ''default''])"
    by (simp add: pn)
  note typing = mutating_tools_end_with_snapshot [where cl = example_client and args = ?type
      and tr = "[]" and ref = "''e1''" and typed = "''hi''" and el = 3
      and snapshot = "''- button [ref=e1]''",
      THEN conjunct2, THEN conjunct2, THEN conjunct2, THEN conjunct2, THEN conjunct1, THEN mp]
  have clear: "argOf ?type arg_clear \<noteq> Some True"
    by (simp add: argOf_def no_args_def)
  have "handleToolCall example_client ''browser_type'' ?type []
     = (Inr [textContent (''Typed '' @ [dq] @ ''hi'' @ [dq] @ '' into [ref='' @ ''e1'' @ '']''
                          @ [nl, nl] @ ''- button [ref=e1]'')],
        [] @ [SelectSnapshotRef (pageNameOf ?type) ''e1'',
              if argOf ?type arg_clear = Some True then Fill 3 ''hi'' else TypeText 3 ''hi'',
              GetAISnapshot (pageNameOf ?type)])"
    by (rule typing) (simp add: pn argOf_def no_args_def example_client_def)
  then have c3: "handleToolCall example_client ''browser_type'' ?type []
     = (Inr [textContent (''Typed '' @ [dq] @ ''hi'' @ [dq] @ '' into [ref=e1]'' @ [nl, nl]
                          @ ''- button [ref=e1]'')],
        [SelectSnapshotRef ''default'' ''e1'', TypeText 3 ''hi'', GetAISnapshot ''default''])"
    by (simp add: pn clear)
  note scroll = mutating_tools_end_with_snapshot [where cl = example_client and args = ?scroll
      and tr = "[]" and direction = "''down''" and p = 7 and snapshot = "''- button [ref=e1]''",
      THEN conjunct2, THEN conjunct2, THEN conjunct2, THEN conjunct2, THEN conjunct2, THEN mp]
  have amount: "scrollAmount ?scroll = 500" "scrollDelta ''down'' 500 = 500"
    "numberToString example_client 500 = ''500''"
    by (simp_all add: scrollAmount_def scrollDelta_def argOf_def no_args_def example_client_def)
  have "handleToolCall example_client ''browser_scroll'' ?scroll []
     = (Inr [textContent (''Scrolled '' @ ''down'' @ '' ''
                          @ numberToString example_client (scrollAmount ?scroll) @ ''px''
                          @ [nl, nl] @ ''- button [ref=e1]'')],
        [] @ [ClientPage (pageNameOf ?scroll),
              MouseWheel 7 0 (scrollDelta ''down'' (scrollAmount ?scroll)),
              WaitForPageLoad 7 (Some 2000), GetAISnapshot (pageNameOf ?scroll)])"
    by (rule scroll) (simp add: pn argOf_def no_args_def example_client_def)
  then have c4: "handleToolCall example_client ''browser_scroll'' ?scroll []
     = (Inr [textContent (''Scrolled down 500px'' @ [nl, nl] @ ''- button [ref=e1]'')],
        [ClientPage ''default'', MouseWheel 7 0 500, WaitForPageLoad 7 (Some 2000),
         GetAISnapshot ''default''])"
    by (simp add: pn amount)
  have tool: "''browser_click'' \<in>
      {''browser_navigate'', ''browser_click'', ''browser_type'', ''browser_scroll''}"
    by simp
  have run: "runTool (withEngine example_client example_engine) ''browser_click'' ?click []
     = (Inr [textContent (''Clicked element [ref=e1]'' @ [nl, nl] @ ''- button [ref=e1]'')],
        ?mid @ [GetAISnapshot ''default''])"
    by (simp add: eval_defs withEngine_def example_engine_def)
  note store = mutating_tools_end_with_snapshot [where cl = example_client and eng = example_engine
      and name = "''browser_click''" and args = ?click and tr = "[]"
      and result = "[textContent (''Clicked element [ref=e1]'' @ [nl, nl] @ ''- button [ref=e1]'')]"
      and tr' = "?mid @ [GetAISnapshot ''default'']"
      and current = example_current and locate = "[10 \<mapsto> 100, 11 \<mapsto> 101]",
      THEN conjunct2, THEN conjunct1, THEN mp, OF conjI [OF tool run]]
  from store obtain mid display m where
    eq: "?mid @ [GetAISnapshot ''default''] = [] @ mid @ [GetAISnapshot (pageNameOf ?click)]"
    and m: "example_engine ([] @ mid) (pageNameOf ?click) = Inr (display, m)"
    and cur: "currentAfter example_engine [] (mid @ [GetAISnapshot (pageNameOf ?click)])
        example_current (pageNameOf ?click)
      = \<lparr>sequenceNumber = Suc (sequenceNumber (example_current (pageNameOf ?click))), refMap = m\<rparr>"
    and stale: "\<forall>r. m r = None
      \<longrightarrow> resolveElement
            (currentAfter example_engine [] (mid @ [GetAISnapshot (pageNameOf ?click)])
               example_current)
            [10 \<mapsto> 100, 11 \<mapsto> 101] (pageNameOf ?click) r
          = Inl StaleRefError"
    by blast
  from eq have mid: "mid = ?mid"
    by (simp only: pn append_Nil append1_eq_conv)
  from m have m': "m = [''e1'' \<mapsto> 10]"
    by (simp add: example_engine_def)
  have c5: "currentAfter example_engine [] (?mid @ [GetAISnapshot ''default''])
        example_current ''default''
      = \<lparr>sequenceNumber = 2, refMap = [''e1'' \<mapsto> 10]\<rparr>"
    using cur by (simp add: mid m' pn example_current_def)
  have "m ''e2'' = None"
    by (simp add: m')
  with stale have c6: "resolveElement
        (currentAfter example_engine [] (?mid @ [GetAISnapshot ''default'']) example_current)
        [10 \<mapsto> 100, 11 \<mapsto> 101] ''default'' ''e2''
      = Inl StaleRefError"
    by (simp only: mid pn)
  from c1 c2 c3 c4 c5 c6 show ?thesis by blast
qed

lemma scroll_wheel_first:
  assumes "argOf args arg_direction = Some direction" "direction \<noteq> []"
    and "on_page cl tr pn = Inr p"
  shows "take (length tr + 2) (snd (browser_scroll cl pn args tr))
         = tr @ [ClientPage pn, MouseWheel p 0 (scrollDelta direction (scrollAmount args))]"
  using assms
  by (simp add: browser_scroll_def required_cases bindIO_perform client_defs returnIO_def Let_def
      split: sum.splits)


text \<open>
  C10. In \<^verbatim>\<open>browser_scroll\<close> the amount is 500 when the \<^verbatim>\<open>amount\<close> argument is
  missing or is 0, and the argument otherwise; the wheel delta is the amount for the
  direction \<^verbatim>\<open>"down"\<close> and its negation for any other direction; and a call with a
  direction whose page is found turns the wheel by exactly that delta (horizontal
  delta 0) right after getting the page. So a call with amount 0 scrolls by 500.
\<close>

theorem scroll_delta:
  "(argOf args arg_amount = None \<or> argOf args arg_amount = Some 0 \<longrightarrow> scrollAmount args = 500)
   \<and> (argOf args arg_amount = Some a \<and> a \<noteq> 0 \<longrightarrow> scrollAmount args = a)
   \<and> scrollDelta ''down'' amount = amount
   \<and> (direction \<noteq> ''down'' \<longrightarrow> scrollDelta direction amount = - amount)
   \<and> (argOf args arg_direction = Some direction \<and> direction \<noteq> []
        \<and> on_page cl tr (pageNameOf args) = Inr p
      \<longrightarrow> (\<exists>r rest. handleToolCall cl ''browser_scroll'' args tr
             = (r, tr @ [ClientPage (pageNameOf args),
                         MouseWheel p 0 (scrollDelta direction (scrollAmount args))] @ rest)))"
proof -
  have amount0: "argOf args arg_amount = None \<or> argOf args arg_amount = Some 0
      \<longrightarrow> scrollAmount args = 500"
    by (auto simp: scrollAmount_def)
  have amount1: "argOf args arg_amount = Some a \<and> a \<noteq> 0 \<longrightarrow> scrollAmount args = a"
    by (simp add: scrollAmount_def)
  have down: "scrollDelta ''down'' amount = amount"
    by (simp add: scrollDelta_def)
  have other: "direction \<noteq> ''down'' \<longrightarrow> scrollDelta direction amount = - amount"
    by (simp add: scrollDelta_def)
  have wheel: "\<exists>r rest. handleToolCall cl ''browser_scroll'' args tr
             = (r, tr @ [ClientPage (pageNameOf args),
                         MouseWheel p 0 (scrollDelta direction (scrollAmount args))] @ rest)"
    if "argOf args arg_direction = Some direction" "direction \<noteq> []"
       "on_page cl tr (pageNameOf args) = Inr p"
  proof -
    let ?res = "handleToolCall cl ''browser_scroll'' args tr"
    have "snd ?res = snd (browser_scroll cl (pageNameOf args) args tr)"
      by (simp add: handleToolCall_trace runTool_def)
    with scroll_wheel_first [OF that]
    have "take (length tr + 2) (snd ?res)
          = tr @ [ClientPage (pageNameOf args),
                  MouseWheel p 0 (scrollDelta direction (scrollAmount args))]"
      by simp
    then have "snd ?res
          = (tr @ [ClientPage (pageNameOf args),
                  MouseWheel p 0 (scrollDelta direction (scrollAmount args))])
            @ drop (length tr + 2) (snd ?res)"
      by (metis append_take_drop_id)
    then have "?res = (fst ?res, tr @ [ClientPage (pageNameOf args),
                  MouseWheel p 0 (scrollDelta direction (scrollAmount args))]
            @ drop (length tr + 2) (snd ?res))"
      by (metis append_assoc prod.collapse)
    then show ?thesis by blast
  qed
  from amount0 amount1 down other wheel show ?thesis by blast
qed

theorem scroll_delta_witness:
  "scrollAmount (Some (no_args\<lparr>arg_direction := Some ''up'', arg_amount := Some 0\<rparr>)) = 500
   \<and> scrollAmount (Some (no_args\<lparr>arg_direction := Some ''down''\<rparr>)) = 500
   \<and> scrollAmount (Some (no_args\<lparr>arg_direction := Some ''down'', arg_amount := Some 120\<rparr>)) = 120
   \<and> scrollDelta ''up'' 500 = - 500
   \<and> (\<exists>r rest. handleToolCall example_client ''browser_scroll''
          (Some (no_args\<lparr>arg_direction := Some ''up'', arg_amount := Some 0\<rparr>)) []
        = (r, [ClientPage ''default'', MouseWheel 7 0 (- 500)] @ rest))"
proof -
  let ?zero = "Some (no_args\<lparr>arg_direction := Some ''up'', arg_amount := Some 0\<rparr>)"
  let ?none = "Some (no_args\<lparr>arg_direction := Some ''down''\<rparr>)"
  let ?some = "Some (no_args\<lparr>arg_direction := Some ''down'', arg_amount := Some 120\<rparr>)"
  have a0: "argOf ?zero arg_amount = Some 0" and d0: "argOf ?zero arg_direction = Some ''up''"
    and p0: "pageNameOf ?zero = ''default''"
    by (simp_all add: argOf_def no_args_def pageNameOf_def)
  have a1: "argOf ?none arg_amount = None" and a2: "argOf ?some arg_amount = Some 120"
    by (simp_all add: argOf_def no_args_def)
  have pg: "on_page example_client [] ''default'' = Inr 7"
    by (simp add: example_client_def)
  note zero = scroll_delta [where args = ?zero and direction = "''up''" and amount = 500
      and cl = example_client and tr = "[]" and p = 7]
  have c1: "scrollAmount ?zero = 500"
    using zero a0 by blast
  have c4: "scrollDelta ''up'' 500 = - 500"
    using zero by simp
  have prem: "argOf ?zero arg_direction = Some ''up'' \<and> ''up'' \<noteq> []
      \<and> on_page example_client [] (pageNameOf ?zero) = Inr 7"
    by (simp add: d0 pg p0)
  have "\<exists>r rest. handleToolCall example_client ''browser_scroll'' ?zero []
      = (r, [] @ [ClientPage (pageNameOf ?zero),
                  MouseWheel 7 0 (scrollDelta ''up'' (scrollAmount ?zero))] @ rest)"
    using zero prem by blast
  then have c5: "\<exists>r rest. handleToolCall example_client ''browser_scroll'' ?zero []
      = (r, [ClientPage ''default'', MouseWheel 7 0 (- 500)] @ rest)"
    by (simp only: c1 c4 p0 append_Nil)
  have c2: "scrollAmount ?none = 500"
    using scroll_delta [where args = ?none] a1 by blast
  have c3: "scrollAmount ?some = 120"
    using scroll_delta [where args = ?some and a = 120] a2 by simp
  from c1 c2 c3 c4 c5 show ?thesis by blast
qed

lemmas tool_simps =
  required_cases bindIO_perform client_defs returnIO_def throwIO_def onlyPage_def

lemma snapshot_pages:
  "\<exists>new. snd (browser_snapshot cl pn tr) = tr @ new \<and> onlyPage pn new
     \<and> (new \<noteq> [] \<longrightarrow> pageOf (hd new) = Some pn)"
  by (simp add: browser_snapshot_def tool_simps split: option.splits sum.splits)

lemma navigate_pages:
  "\<exists>new. snd (browser_navigate cl pn args tr) = tr @ new \<and> onlyPage pn new
     \<and> (new \<noteq> [] \<longrightarrow> pageOf (hd new) = Some pn)"
  by (simp add: browser_navigate_def tool_simps split: option.splits sum.splits)

lemma click_pages:
  "\<exists>new. snd (browser_click cl pn args tr) = tr @ new \<and> onlyPage pn new
     \<and> (new \<noteq> [] \<longrightarrow> pageOf (hd new) = Some pn)"
  by (simp add: browser_click_def tool_simps split: option.splits sum.splits)

lemma type_pages:
  "\<exists>new. snd (browser_type cl pn args tr) = tr @ new \<and> onlyPage pn new
     \<and> (new \<noteq> [] \<longrightarrow> pageOf (hd new) = Some pn)"
  by (simp add: browser_type_def tool_simps split: option.splits sum.splits)

lemma screenshot_pages:
  "\<exists>new. snd (browser_screenshot cl pn args tr) = tr @ new \<and> onlyPage pn new
     \<and> (new \<noteq> [] \<longrightarrow> pageOf (hd new) = Some pn)"
  by (simp add: browser_screenshot_def tool_simps split: option.splits sum.splits)

lemma scroll_pages:
  "\<exists>new. snd (browser_scroll cl pn args tr) = tr @ new \<and> onlyPage pn new
     \<and> (new \<noteq> [] \<longrightarrow> pageOf (hd new) = Some pn)"
  by (simp add: browser_scroll_def Let_def tool_simps split: option.splits sum.splits)

lemma run_script_pages:
  "\<exists>new. snd (browser_run_script cl pn args tr) = tr @ new \<and> onlyPage pn new
     \<and> (new \<noteq> [] \<longrightarrow> pageOf (hd new) = Some pn)"
  by (simp add: browser_run_script_def tool_simps split: option.splits sum.splits script_result.splits)

lemma list_pages_pages:
  "\<exists>new. snd (browser_list_pages cl tr) = tr @ new \<and> onlyPage pn new"
  by (simp add: browser_list_pages_def tool_simps split: option.splits sum.splits)

lemma close_page_pages:
  "\<exists>new. snd (browser_close_page cl args tr) = tr @ new
     \<and> (case argOf args arg_page of None \<Rightarrow> new = [] | Some n \<Rightarrow> onlyPage n new \<and> (n = [] \<longrightarrow> new = []))"
  by (simp add: browser_close_page_def tool_simps split: option.splits sum.splits)


lemma runTool_pages:
  assumes "name \<noteq> ''browser_close_page''"
  shows "\<exists>new. snd (runTool cl name args tr) = tr @ new \<and> onlyPage (pageNameOf args) new
     \<and> (name \<in> set pageTools \<and> new \<noteq> [] \<longrightarrow> pageOf (hd new) = Some (pageNameOf args))"
proof -
  let ?pn = "pageNameOf args"
  consider (snapshot) "name = ''browser_snapshot''" | (navigate) "name = ''browser_navigate''"
    | (click) "name = ''browser_click''" | (ty) "name = ''browser_type''"
    | (screenshot) "name = ''browser_screenshot''" | (scroll) "name = ''browser_scroll''"
    | (script) "name = ''browser_run_script''" | (list) "name = ''browser_list_pages''"
    | (unknown) "name \<notin> set pageTools" "name \<noteq> ''browser_list_pages''"
    by (auto simp: pageTools_def)
  then show ?thesis
  proof cases
    case snapshot
    then show ?thesis using snapshot_pages [of cl ?pn tr] by (auto simp: runTool_def)
  next
    case navigate
    then show ?thesis using navigate_pages [of cl ?pn args tr] by (auto simp: runTool_def)
  next
    case click
    then show ?thesis using click_pages [of cl ?pn args tr] by (auto simp: runTool_def)
  next
    case ty
    then show ?thesis using type_pages [of cl ?pn args tr] by (auto simp: runTool_def)
  next
    case screenshot
    then show ?thesis using screenshot_pages [of cl ?pn args tr] by (auto simp: runTool_def)
  next
    case scroll
    then show ?thesis using scroll_pages [of cl ?pn args tr] by (auto simp: runTool_def)
  next
    case script
    then show ?thesis using run_script_pages [of cl ?pn args tr] by (auto simp: runTool_def)
  next
    case list
    then show ?thesis using list_pages_pages [of cl tr ?pn]
      by (auto simp: runTool_def pageTools_def)
  next
    case unknown
    with assms have "snd (runTool cl name args tr) = tr"
      by (simp add: runTool_def pageTools_def throwIO_def)
    with unknown show ?thesis by (simp add: onlyPage_def)
  qed
qed

lemma close_page_rejects:
  assumes "argOf args arg_page = None \<or> argOf args arg_page = Some []"
  shows "handleToolCall cl ''browser_close_page'' args tr
         = (Inr [textContent ''Error: page is required''], tr)"
  using assms
  by (auto simp: handleToolCall_def runTool_def browser_close_page_def required_cases
      messageOf_def errorText_def)

text \<open>
  C8, as the specification states it: every tool call whose arguments omit the page
  name works on the page named \<^verbatim>\<open>"default"\<close>. \<^verbatim>\<open>browser_close_page\<close> does not: with
  the page name omitted it closes nothing and returns the text
  \<^verbatim>\<open>Error: page is required\<close>; it closes "default" only when told so.
\<close>

theorem close_page_default_counterexample:
  "handleToolCall example_client ''browser_close_page'' None []
     = (Inr [textContent ''Error: page is required''], [])
   \<and> handleToolCall example_client ''browser_close_page'' (Some no_args) []
     = (Inr [textContent ''Error: page is required''], [])
   \<and> handleToolCall example_client ''browser_close_page''
        (Some (no_args\<lparr>arg_page := Some ''default''\<rparr>)) []
     = (Inr [textContent (''Closed page '' @ [dq] @ ''default'' @ [dq])], [ClientClose ''default''])"
  by (simp add: eval_defs)

text \<open>
  C8, amended. For every tool other than \<^verbatim>\<open>browser_close_page\<close>, a call whose
  arguments omit the page name uses the page name \<^verbatim>\<open>"default"\<close>: every call it makes
  on the client that names a page names "default", and for the seven tools that work
  on a page the first call made does so. \<^verbatim>\<open>browser_close_page\<close> requires the page
  name: without it, it makes no call and returns \<^verbatim>\<open>Error: page is required\<close>.
\<close>

theorem omitted_page_is_default:
  "(argOf args arg_page = None \<and> name \<noteq> ''browser_close_page''
      \<and> handleToolCall cl name args tr = (r, tr')
    \<longrightarrow> pageNameOf args = ''default''
        \<and> (\<exists>new. tr' = tr @ new \<and> onlyPage ''default'' new
             \<and> (name \<in> set pageTools \<and> new \<noteq> [] \<longrightarrow> pageOf (hd new) = Some ''default'')))
   \<and> (argOf args arg_page = None
    \<longrightarrow> handleToolCall cl ''browser_close_page'' args tr
        = (Inr [textContent ''Error: page is required''], tr))"
proof (intro conjI impI)
  assume a: "argOf args arg_page = None \<and> name \<noteq> ''browser_close_page''
      \<and> handleToolCall cl name args tr = (r, tr')"
  then show pn: "pageNameOf args = ''default''"
    by (simp add: pageNameOf_def)
  from a have "snd (runTool cl name args tr) = tr'"
    using handleToolCall_trace [of cl name args tr] by simp
  with runTool_pages [of name cl args tr] a pn
  show "\<exists>new. tr' = tr @ new \<and> onlyPage ''default'' new
             \<and> (name \<in> set pageTools \<and> new \<noteq> [] \<longrightarrow> pageOf (hd new) = Some ''default'')"
    by auto
next
  assume "argOf args arg_page = None"
  then show "handleToolCall cl ''browser_close_page'' args tr
        = (Inr [textContent ''Error: page is required''], tr)"
    by (simp add: close_page_rejects)
qed

theorem omitted_page_is_default_witness:
  "handleToolCall example_client ''browser_snapshot'' None []
     = (Inr [textContent ''- button [ref=e1]''], [GetAISnapshot ''default''])
   \<and> pageNameOf None = ''default''
   \<and> (\<exists>new. [GetAISnapshot ''default''] = [] @ new \<and> onlyPage ''default'' new
         \<and> pageOf (hd new) = Some ''default'')
   \<and> handleToolCall example_client ''browser_close_page'' None []
     = (Inr [textContent ''Error: page is required''], [])"
proof -
  have run: "handleToolCall example_client ''browser_snapshot'' None []
     = (Inr [textContent ''- button [ref=e1]''], [GetAISnapshot ''default''])"
    by (simp add: eval_defs)
  have prem: "argOf None arg_page = None \<and> ''browser_snapshot'' \<noteq> ''browser_close_page''
      \<and> handleToolCall example_client ''browser_snapshot'' None []
        = (Inr [textContent ''- button [ref=e1]''], [GetAISnapshot ''default''])"
    using run by (simp add: argOf_def)
  note inst = omitted_page_is_default [where args = None and name = "''browser_snapshot''"
      and cl = example_client and tr = "[]" and r = "Inr [textContent ''- button [ref=e1]'']"
      and tr' = "[GetAISnapshot ''default'']"]
  from inst prem have c: "pageNameOf None = ''default''
        \<and> (\<exists>new. [GetAISnapshot ''default''] = [] @ new \<and> onlyPage ''default'' new
             \<and> (''browser_snapshot'' \<in> set pageTools \<and> new \<noteq> [] \<longrightarrow> pageOf (hd new) = Some ''default''))"
    by blast
  then have c3: "\<exists>new. [GetAISnapshot ''default''] = [] @ new \<and> onlyPage ''default'' new
         \<and> pageOf (hd new) = Some ''default''"
    by (auto simp: pageTools_def)
  have c4: "handleToolCall example_client ''browser_close_page'' None []
     = (Inr [textContent ''Error: page is required''], [])"
    using inst by (simp add: argOf_def)
  from run c c3 c4 show ?thesis by blast
qed


lemma page_posts_name:
  "\<exists>rest. calls (snd (page out n st)) = calls st @ FetchPostPages n # rest"
  by (simp add: page_def ensureConnected_def Let_def split: sum.splits option.splits prod.splits)

lemma close_page_trace:
  assumes "argOf args arg_page = Some n" "n \<noteq> []"
  shows "snd (handleToolCall cl ''browser_close_page'' args tr) = tr @ [ClientClose n]"
  using assms
  by (simp add: handleToolCall_trace runTool_def browser_close_page_def tool_simps
      split: sum.splits)

text \<open>
  C7, as the specification states it: the page name must be non-empty, reaches the
  registry as supplied, and an empty name is neither accepted nor rewritten. The code
  rewrites an empty page name to \<^verbatim>\<open>"default"\<close> at the tool boundary, and
  \<^verbatim>\<open>client.page\<close> posts an empty name as it would any other.
\<close>

theorem empty_page_name_counterexample:
  "pageNameOf (Some (no_args\<lparr>arg_page := Some []\<rparr>)) = ''default''
   \<and> handleToolCall example_client ''browser_snapshot'' (Some (no_args\<lparr>arg_page := Some []\<rparr>)) []
     = (Inr [textContent ''- button [ref=e1]''], [GetAISnapshot ''default''])
   \<and> calls (snd (page steady [] initial))
     = [FetchPostPages [], FetchInfo, ConnectOverCDP ''ws://127.0.0.1:9223'']"
  by (simp add: eval_defs page_def ensureConnected_def steady_def initial_def)

text \<open>
  C7, amended. A non-empty page name is used exactly as supplied: it is the tool's page
  name, every call a tool makes on the client that names a page names it,
  \<^verbatim>\<open>browser_close_page\<close> closes the page of that name, and \<^verbatim>\<open>client.page\<close> posts the
  name it is given, whatever it is, to \<^verbatim>\<open>POST /pages\<close>. An empty page name is treated
  as a missing one: the tools use \<^verbatim>\<open>"default"\<close> instead, and \<^verbatim>\<open>browser_close_page\<close>
  returns \<^verbatim>\<open>Error: page is required\<close>.
\<close>

theorem page_name_passed_unchanged:
  "(argOf args arg_page = Some n \<and> n \<noteq> [] \<longrightarrow> pageNameOf args = n)
   \<and> (argOf args arg_page = Some [] \<longrightarrow> pageNameOf args = ''default'')
   \<and> (argOf args arg_page = Some n \<and> n \<noteq> [] \<and> name \<noteq> ''browser_close_page''
        \<and> handleToolCall cl name args tr = (r, tr')
      \<longrightarrow> (\<exists>new. tr' = tr @ new \<and> onlyPage n new
             \<and> (name \<in> set pageTools \<and> new \<noteq> [] \<longrightarrow> pageOf (hd new) = Some n)))
   \<and> (argOf args arg_page = Some n \<and> n \<noteq> []
      \<longrightarrow> snd (handleToolCall cl ''browser_close_page'' args tr) = tr @ [ClientClose n])
   \<and> (argOf args arg_page = Some []
      \<longrightarrow> handleToolCall cl ''browser_close_page'' args tr
          = (Inr [textContent ''Error: page is required''], tr))
   \<and> (\<exists>rest. calls (snd (page out n st)) = calls st @ FetchPostPages n # rest)"
proof (intro conjI impI)
  assume "argOf args arg_page = Some n \<and> n \<noteq> []"
  then show "pageNameOf args = n"
    by (simp add: pageNameOf_def)
next
  assume "argOf args arg_page = Some []"
  then show "pageNameOf args = ''default''"
    by (simp add: pageNameOf_def)
next
  assume a: "argOf args arg_page = Some n \<and> n \<noteq> [] \<and> name \<noteq> ''browser_close_page''
        \<and> handleToolCall cl name args tr = (r, tr')"
  then have pn: "pageNameOf args = n"
    by (simp add: pageNameOf_def)
  from a have "snd (runTool cl name args tr) = tr'"
    using handleToolCall_trace [of cl name args tr] by simp
  with runTool_pages [of name cl args tr] a pn
  show "\<exists>new. tr' = tr @ new \<and> onlyPage n new
             \<and> (name \<in> set pageTools \<and> new \<noteq> [] \<longrightarrow> pageOf (hd new) = Some n)"
    by auto
next
  assume "argOf args arg_page = Some n \<and> n \<noteq> []"
  then show "snd (handleToolCall cl ''browser_close_page'' args tr) = tr @ [ClientClose n]"
    by (simp add: close_page_trace)
next
  assume "argOf args arg_page = Some []"
  then show "handleToolCall cl ''browser_close_page'' args tr
          = (Inr [textContent ''Error: page is required''], tr)"
    by (simp add: close_page_rejects)
next
  show "\<exists>rest. calls (snd (page out n st)) = calls st @ FetchPostPages n # rest"
    by (rule page_posts_name)
qed

theorem page_name_passed_unchanged_witness:
  "pageNameOf (Some (no_args\<lparr>arg_page := Some ''Main Page ''\<rparr>)) = ''Main Page ''
   \<and> pageNameOf (Some (no_args\<lparr>arg_page := Some []\<rparr>)) = ''default''
   \<and> handleToolCall example_client ''browser_snapshot''
        (Some (no_args\<lparr>arg_page := Some ''Main Page ''\<rparr>)) []
     = (Inr [textContent ''- button [ref=e1]''], [GetAISnapshot ''Main Page ''])
   \<and> (\<exists>new. [GetAISnapshot ''Main Page ''] = [] @ new \<and> onlyPage ''Main Page '' new
         \<and> pageOf (hd new) = Some ''Main Page '')
   \<and> snd (handleToolCall example_client ''browser_close_page''
        (Some (no_args\<lparr>arg_page := Some ''Main Page ''\<rparr>)) []) = [ClientClose ''Main Page '']
   \<and> (\<exists>rest. calls (snd (page steady ''Main Page '' initial)) = FetchPostPages ''Main Page '' # rest)"
proof -
  let ?args = "Some (no_args\<lparr>arg_page := Some ''Main Page ''\<rparr>)"
  let ?empty = "Some (no_args\<lparr>arg_page := Some []\<rparr>)"
  have arg: "argOf ?args arg_page = Some ''Main Page ''" and arg0: "argOf ?empty arg_page = Some []"
    by (simp_all add: argOf_def no_args_def)
  have run: "handleToolCall example_client ''browser_snapshot'' ?args []
     = (Inr [textContent ''- button [ref=e1]''], [GetAISnapshot ''Main Page ''])"
    by (simp add: eval_defs)
  note inst = page_name_passed_unchanged [where args = ?args and n = "''Main Page ''"
      and name = "''browser_snapshot''" and cl = example_client and tr = "[]"
      and r = "Inr [textContent ''- button [ref=e1]'']" and tr' = "[GetAISnapshot ''Main Page '']"
      and out = steady and st = initial]
  have c1: "pageNameOf ?args = ''Main Page ''"
    using inst arg by simp
  have c2: "pageNameOf ?empty = ''default''"
    using page_name_passed_unchanged [where args = ?empty] arg0 by blast
  have prem: "argOf ?args arg_page = Some ''Main Page '' \<and> ''Main Page '' \<noteq> []
        \<and> ''browser_snapshot'' \<noteq> ''browser_close_page''
        \<and> handleToolCall example_client ''browser_snapshot'' ?args []
          = (Inr [textContent ''- button [ref=e1]''], [GetAISnapshot ''Main Page ''])"
    using arg run by simp
  from inst prem have "\<exists>new. [GetAISnapshot ''Main Page ''] = [] @ new \<and> onlyPage ''Main Page '' new
             \<and> (''browser_snapshot'' \<in> set pageTools \<and> new \<noteq> []
                 \<longrightarrow> pageOf (hd new) = Some ''Main Page '')"
    by blast
  then have c4: "\<exists>new. [GetAISnapshot ''Main Page ''] = [] @ new \<and> onlyPage ''Main Page '' new
         \<and> pageOf (hd new) = Some ''Main Page ''"
    by (auto simp: pageTools_def)
  have c5: "snd (handleToolCall example_client ''browser_close_page'' ?args [])
      = [ClientClose ''Main Page '']"
    using inst arg by simp
  have c6: "\<exists>rest. calls (snd (page steady ''Main Page '' initial))
      = FetchPostPages ''Main Page '' # rest"
    using inst by (simp add: initial_def)
  from c1 c2 run c4 c5 c6 show ?thesis by blast
qed

text \<open>
  What the \<^verbatim>\<open>catch\<close> block of \<^verbatim>\<open>handleToolCall\<close> achieves: a thrown Error whose
  message converts to a string, or any other thrown value that \<^verbatim>\<open>String\<close> can
  convert, comes back as the text \<^verbatim>\<open>Error: <message>\<close>; so do an unknown tool name
  and a missing required argument.
\<close>

lemma handleToolCall_error_text:
  assumes "runTool cl name args tr = (Inl e, tr')" and "e = JsError m \<or> e = JsValue m"
  shows "handleToolCall cl name args tr = (Inr [textContent (''Error: '' @ m)], tr')"
  using assms by (auto simp: handleToolCall_def messageOf_def errorText_def)

lemma handleToolCall_returns:
  assumes "\<And>tr'. runTool cl name args tr \<noteq> (Inl JsOpaque, tr')"
    and "\<And>tr'. runTool cl name args tr \<noteq> (Inl JsErrorOpaque, tr')"
  shows "\<exists>result tr'. handleToolCall cl name args tr = (Inr result, tr')"
proof (cases "runTool cl name args tr")
  case (Pair outcome tr')
  show ?thesis
  proof (cases outcome)
    case (Inl e)
    with Pair assms have "e \<noteq> JsOpaque" "e \<noteq> JsErrorOpaque" by auto
    then obtain m where "e = JsError m \<or> e = JsValue m"
      by (cases e) auto
    with Pair Inl handleToolCall_error_text [of cl name args tr e tr' m] show ?thesis
      by auto
  next
    case (Inr result)
    with Pair show ?thesis
      by (simp add: handleToolCall_def)
  qed
qed

lemma unknown_tool:
  assumes "name \<notin> set pageTools" "name \<noteq> ''browser_list_pages''" "name \<noteq> ''browser_close_page''"
  shows "handleToolCall cl name args tr
         = (Inr [textContent (''Error: Unknown tool: '' @ name)], tr)"
  using assms
  by (simp add: handleToolCall_def runTool_def pageTools_def throwIO_def messageOf_def
      errorText_def)

text \<open>
  When \<^verbatim>\<open>selectSnapshotRef\<close> throws or returns \<^verbatim>\<open>null\<close>, \<^verbatim>\<open>browser_click\<close> and
  \<^verbatim>\<open>browser_type\<close> make no further call: no element is clicked or typed into.
\<close>

lemma click_unresolved_no_action:
  assumes "argOf args arg_ref = Some ref" "ref \<noteq> []"
    and "on_selectSnapshotRef cl tr (pageNameOf args) ref = Inl e
         \<or> on_selectSnapshotRef cl tr (pageNameOf args) ref = Inr None"
  shows "snd (handleToolCall cl ''browser_click'' args tr)
         = tr @ [SelectSnapshotRef (pageNameOf args) ref]"
  using assms
  by (auto simp: handleToolCall_trace runTool_def Let_def browser_click_def tool_simps)

lemma type_unresolved_no_action:
  assumes "argOf args arg_ref = Some ref" "ref \<noteq> []" "argOf args arg_text = Some t" "t \<noteq> []"
    and "on_selectSnapshotRef cl tr (pageNameOf args) ref = Inl e
         \<or> on_selectSnapshotRef cl tr (pageNameOf args) ref = Inr None"
  shows "snd (handleToolCall cl ''browser_type'' args tr)
         = tr @ [SelectSnapshotRef (pageNameOf args) ref]"
  using assms
  by (auto simp: handleToolCall_trace runTool_def Let_def browser_type_def tool_simps)

text \<open>
  C4. \<^verbatim>\<open>handleToolCall\<close> is meant never to throw: whatever is thrown inside a tool is
  caught and returned as an error text. The conversion in the \<^verbatim>\<open>catch\<close> block can
  itself throw, though: for a thrown value that is not an Error, \<^verbatim>\<open>String(error)\<close> is
  evaluated outside any \<^verbatim>\<open>try\<close>. The script \<^verbatim>\<open>throw Object.create(null)\<close> given to
  \<^verbatim>\<open>browser_run_script\<close> throws such a value, and the call ends with a TypeError
  thrown across the tool-call boundary instead of a result.
\<close>

theorem handleToolCall_throws_on_opaque:
  "handleToolCall example_client ''browser_run_script''
      (Some (no_args\<lparr>arg_script := Some ''throw Object.create(null)''\<rparr>)) []
   = (Inl (JsError ''Cannot convert object to primitive value''),
      [ClientPage ''default'', RunScript 7 ''throw Object.create(null)''])"
  by (simp add: eval_defs)

section \<open>Properties of the specified server side\<close>

text \<open>
  C1. Resolving a ref that is absent from the current snapshot's \<open>refMap\<close> of the page
  fails with \<open>StaleRefError\<close> and yields no element handle. This covers a ref that was
  never issued, and a ref issued by an earlier snapshot once a superseding snapshot
  whose \<open>refMap\<close> lacks it has been taken, whatever the live document still holds.
\<close>

theorem resolveElement_stale:
  "(refMap (current pageName) ref = None
      \<longrightarrow> resolveElement current locate pageName ref = Inl StaleRefError
        \<and> (\<forall>element. resolveElement current locate pageName ref \<noteq> Inr element))
   \<and> (m ref = None
      \<longrightarrow> resolveElement (supersede current pageName m) locate pageName ref = Inl StaleRefError
        \<and> (\<forall>element. resolveElement (supersede current pageName m) locate pageName ref
              \<noteq> Inr element))"
  by (simp add: resolveElement_def supersede_def)

theorem resolveElement_stale_witness:
  "resolveElement example_current [10 \<mapsto> 100, 11 \<mapsto> 101] ''search'' ''e7'' = Inl StaleRefError
   \<and> resolveElement example_current [10 \<mapsto> 100, 11 \<mapsto> 101] ''search'' ''e2'' = Inr 101
   \<and> resolveElement (supersede example_current ''search'' [''e1'' \<mapsto> 10])
        [10 \<mapsto> 100, 11 \<mapsto> 101] ''search'' ''e2'' = Inl StaleRefError"
proof -
  have absent: "refMap (example_current ''search'') ''e7'' = None"
    by (simp add: example_current_def)
  have gone: "[''e1'' \<mapsto> (10::nat)] ''e2'' = None"
    by simp
  have c1: "resolveElement example_current [10 \<mapsto> 100, 11 \<mapsto> 101] ''search'' ''e7''
      = Inl StaleRefError"
    using resolveElement_stale [where current = example_current and pageName = "''search''"
        and ref = "''e7''" and locate = "[10 \<mapsto> 100, 11 \<mapsto> 101]"] absent
    by blast
  have c2: "resolveElement example_current [10 \<mapsto> 100, 11 \<mapsto> 101] ''search'' ''e2'' = Inr 101"
    by (simp add: resolveElement_def example_current_def)
  have c3: "resolveElement (supersede example_current ''search'' [''e1'' \<mapsto> 10])
        [10 \<mapsto> 100, 11 \<mapsto> 101] ''search'' ''e2'' = Inl StaleRefError"
    using resolveElement_stale [where current = example_current and pageName = "''search''"
        and ref = "''e2''" and locate = "[10 \<mapsto> 100, 11 \<mapsto> 101]" and m = "[''e1'' \<mapsto> 10]"] gone
    by blast
  from c1 c2 c3 show ?thesis by blast
qed

text \<open>
  C3. \<^verbatim>\<open>getOrCreate\<close> is idempotent: a second call with the same name returns the
  target id the first call returned and changes nothing, so the two calls together
  open one page when the name was new and none when it was registered already.
\<close>

theorem getOrCreate_idempotent:
  "getOrCreate n (snd (getOrCreate n reg)) = (fst (getOrCreate n reg), snd (getOrCreate n reg))
   \<and> length (openPages (snd (getOrCreate n (snd (getOrCreate n reg)))))
     = length (openPages reg) + (if map_of (entries reg) n = None then 1 else 0)"
  by (auto simp: getOrCreate_def Let_def map_add_def split: option.splits)

theorem getOrCreate_idempotent_witness:
  "getOrCreate ''login'' example_registry
     = (1, \<lparr>entries = [(''main'', 0), (''login'', 1)], nextTargetId = 2, openPages = [0, 1]\<rparr>)
   \<and> getOrCreate ''login'' (snd (getOrCreate ''login'' example_registry))
     = (1, \<lparr>entries = [(''main'', 0), (''login'', 1)], nextTargetId = 2, openPages = [0, 1]\<rparr>)
   \<and> getOrCreate ''main'' (snd (getOrCreate ''main'' example_registry)) = (0, example_registry)"
proof -
  have first: "getOrCreate ''login'' example_registry
     = (1, \<lparr>entries = [(''main'', 0), (''login'', 1)], nextTargetId = 2, openPages = [0, 1]\<rparr>)"
    by (simp add: getOrCreate_def example_registry_def)
  have main: "getOrCreate ''main'' example_registry = (0, example_registry)"
    by (simp add: getOrCreate_def example_registry_def)
  from getOrCreate_idempotent [of "''login''" example_registry]
       getOrCreate_idempotent [of "''main''" example_registry] first main
  show ?thesis by simp
qed

end
